theory Spec2Isabelle
  imports Complex_Main "HOL-Library.Log_Nat"
begin

section \<open>Overview\<close>

text \<open>
  A model of the stock portfolio application: the CSV parser of the uploader component,
  the two handlers of \<^verbatim>\<open>App\<close> (the initial load \<^verbatim>\<open>handleCSVData\<close> and
  \<^verbatim>\<open>refreshStockData\<close>) and the quote proxy served by \<^verbatim>\<open>Deno.serve\<close>.

  What the program takes from its environment is a parameter of the model: the outcome of
  the request sent at each position of a batch (\<open>net\<close>), the time read there (\<open>clock\<close>),
  the provider's answer to the proxy (\<open>upstream\<close>) and the proxy's access token. A
  \<^verbatim>\<open>throw\<close> is the value \<open>Inl\<close> of a sum type, and a \<^verbatim>\<open>try ... catch\<close> is a case
  distinction on it. A handler is a function from the state it is called in to the writes
  it makes to the state, in program order, together with the requests it sends and the
  alerts it raises.
\<close>

section \<open>Strings\<close>

text \<open>
  The sources are TypeScript. A JavaScript string is modelled as a \<^typ>\<open>string\<close>; the
  model covers ASCII text, where one \<^typ>\<open>char\<close> is one code unit.

  \<^verbatim>\<open>String.prototype.trim\<close> removes white space and line terminators from both ends.
  Within ASCII these are TAB, LF, VT, FF, CR and SPACE.
\<close>

definition is_ws :: "char \<Rightarrow> bool" where
  "is_ws c = (c = CHR 0x09 \<or> c = CHR 0x0A \<or> c = CHR 0x0B \<or> c = CHR 0x0C \<or> c = CHR 0x0D \<or> c = CHR 0x20)"

definition trim :: "string \<Rightarrow> string" where
  "trim s = rev (dropWhile is_ws (rev (dropWhile is_ws s)))"

text \<open>\<^verbatim>\<open>String.prototype.toUpperCase\<close> on ASCII: the letters a..z move to A..Z.\<close>

definition upper_char :: "char \<Rightarrow> char" where
  "upper_char c =
     (case map_of (zip ''abcdefghijklmnopqrstuvwxyz'' ''ABCDEFGHIJKLMNOPQRSTUVWXYZ'') c of
        None \<Rightarrow> c
      | Some u \<Rightarrow> u)"

definition toUpperCase :: "string \<Rightarrow> string" where
  "toUpperCase s = map upper_char s"

text \<open>
  \<^verbatim>\<open>s.split(sep)\<close> for a one-character separator: the pieces between the separators,
  empty pieces kept; the empty string splits into one empty piece.
\<close>

fun split_on :: "char \<Rightarrow> string \<Rightarrow> string list" where
  "split_on sep [] = [[]]"
| "split_on sep (c # cs) =
     (if c = sep then [] # split_on sep cs
      else (case split_on sep cs of
              [] \<Rightarrow> [[c]]
            | w # ws \<Rightarrow> (c # w) # ws))"

section \<open>The CSV parser (\<^verbatim>\<open>parseCSV\<close> in the uploader component)\<close>

text \<open>
  \<^verbatim>\<open>
  const parseCSV = (text: string): any[] => {
    const lines = text.trim().split('\n');
    if (lines.length < 2) {
      throw new Error('CSV file must contain at least a header row and one data row.');
    }
    const headers = lines[0].split(',').map(h => h.trim().replace(/"/g, ''));
    const data = [];
    for (let i = 1; i < lines.length; i++) {
      const values = lines[i].split(',').map(v => v.trim().replace(/"/g, ''));
      if (values.length === headers.length) {
        const row: any = {};
        headers.forEach((header, index) => { row[header] = values[index]; });
        data.push(row);
      }
    }
    return data;
  };
  \<close>
  A row is an object whose keys are the header names and whose values are strings: a map
  from \<^typ>\<open>string\<close> to \<^typ>\<open>string\<close>.
\<close>

type_synonym csv_row = "string \<rightharpoonup> string"

datatype csv_error = MalformedInput

text \<open>\<^verbatim>\<open>v.trim().replace(/"/g, '')\<close>: trim first, then delete every double quote.\<close>

definition clean :: "string \<Rightarrow> string" where
  "clean v = filter (\<lambda>c. c \<noteq> CHR 0x22) (trim v)"

definition line_fields :: "string \<Rightarrow> string list" where
  "line_fields line = map clean (split_on CHR '','' line)"

text \<open>
  \<^verbatim>\<open>headers.forEach((header, index) => { row[header] = values[index]; })\<close>. The loop runs
  only under the guard \<^verbatim>\<open>values.length === headers.length\<close>, so \<open>vals ! index\<close> is
  always in range; a later header of the same name overwrites the earlier one.
\<close>

fun set_fields :: "string list \<Rightarrow> nat \<Rightarrow> string list \<Rightarrow> csv_row \<Rightarrow> csv_row" where
  "set_fields [] index vals row = row"
| "set_fields (header # rest) index vals row =
     set_fields rest (index + 1) vals (row(header \<mapsto> vals ! index))"

definition mk_row :: "string list \<Rightarrow> string list \<Rightarrow> csv_row" where
  "mk_row headers vals = set_fields headers 0 vals Map.empty"

text \<open>The \<^verbatim>\<open>for\<close> loop over the data lines, \<open>data\<close> being the array pushed to.\<close>

function parse_rows :: "string list \<Rightarrow> string list \<Rightarrow> nat \<Rightarrow> csv_row list \<Rightarrow> csv_row list" where
  "parse_rows headers lines i data =
     (if i < length lines then
        (let vals = line_fields (lines ! i) in
         if length vals = length headers
         then parse_rows headers lines (i + 1) (data @ [mk_row headers vals])
         else parse_rows headers lines (i + 1) data)
      else data)"
  by pat_completeness auto
termination
  by (relation "measure (\<lambda>(headers, lines, i, data). length lines - i)") auto

declare parse_rows.simps [simp del]

definition text_lines :: "string \<Rightarrow> string list" where
  "text_lines text = split_on CHR 0x0A (trim text)"

definition parseCSV :: "string \<Rightarrow> csv_error + csv_row list" where
  "parseCSV text =
     (let lines = text_lines text in
      if length lines < 2 then Inl MalformedInput
      else (let headers = line_fields (lines ! 0) in Inr (parse_rows headers lines 1 [])))"

section \<open>JavaScript values and portfolio entries\<close>

text \<open>
  The values a JSON body can hold. \<^verbatim>\<open>undefined\<close> (a missing property) is \<open>None\<close> of
  \<^typ>\<open>'a option\<close>. A number of a JSON body is held as the rational it denotes: every
  finite double is one. The handlers of \<^verbatim>\<open>App\<close> do no arithmetic on the numbers of a
  quote; the proxy does, in binary64.
\<close>

datatype jsval =
    JNull
  | JBool bool
  | JNum rat
  | JStr string
  | JArr "jsval list"
  | JObj "(string \<times> jsval) list"

text \<open>Truthiness, as \<^verbatim>\<open>||\<close> and \<^verbatim>\<open>!\<close> test it.\<close>

fun truthy :: "jsval option \<Rightarrow> bool" where
  "truthy None = False"
| "truthy (Some JNull) = False"
| "truthy (Some (JBool b)) = b"
| "truthy (Some (JNum n)) = (n \<noteq> 0)"
| "truthy (Some (JStr s)) = (s \<noteq> [])"
| "truthy (Some (JArr xs)) = True"
| "truthy (Some (JObj kvs)) = True"

text \<open>\<^verbatim>\<open>a || d\<close> with a default \<open>d\<close> that is a value.\<close>

definition or_default :: "jsval option \<Rightarrow> jsval \<Rightarrow> jsval" where
  "or_default a d = (case a of None \<Rightarrow> d | Some v \<Rightarrow> if truthy a then v else d)"

text \<open>
  \<^verbatim>\<open>data.key\<close> on a value that is not \<^verbatim>\<open>null\<close>: an object gives the property
  (\<^verbatim>\<open>JSON.parse\<close> keeps the last of two equal keys), every other value has none of the
  properties the client reads. On \<^verbatim>\<open>null\<close> the read throws a TypeError; the callers below
  test for \<open>JNull\<close> before they read.
\<close>

fun get :: "jsval \<Rightarrow> string \<Rightarrow> jsval option" where
  "get (JObj kvs) key = map_of (rev kvs) key"
| "get other key = None"

text \<open>
  \<^verbatim>\<open>
  export interface Stock {
    id: number; symbol: string; companyName: string; ltp: number; open: number;
    high: number; low: number; previousClose: number; change: number;
    changePercent: number; volume: number; lastUpdated: string; error?: string;
    [key: string]: any; // For additional CSV columns
  }
  \<close>
  An entry is an open object: a map from property names to values.
\<close>

type_synonym stock = "string \<rightharpoonup> jsval"

text \<open>\<^verbatim>\<open>...row\<close> inside an object literal; spreading \<^verbatim>\<open>undefined\<close> adds nothing.\<close>

definition spread_row :: "csv_row option \<Rightarrow> stock" where
  "spread_row found = (case found of None \<Rightarrow> Map.empty | Some row \<Rightarrow> (\<lambda>key. map_option JStr (row key)))"

definition spread_stock :: "stock option \<Rightarrow> stock" where
  "spread_stock found = (case found of None \<Rightarrow> Map.empty | Some s \<Rightarrow> s)"

section \<open>Symbol extraction (\<^verbatim>\<open>handleCSVData\<close>, first step)\<close>

text \<open>
  \<^verbatim>\<open>
  const symbols = csvData
    .map(row => row.symbol || row.Symbol || row.SYMBOL)
    .filter(symbol => symbol && typeof symbol === 'string')
    .map(symbol => symbol.trim().toUpperCase());
  \<close>
  The rows come from \<^verbatim>\<open>parseCSV\<close>, so every cell is a string or missing.
\<close>

definition str_or :: "string option \<Rightarrow> string option \<Rightarrow> string option" where
  "str_or a b = (case a of None \<Rightarrow> b | Some s \<Rightarrow> if s \<noteq> [] then a else b)"

definition symbol_cell :: "csv_row \<Rightarrow> string option" where
  "symbol_cell row = str_or (str_or (row ''symbol'') (row ''Symbol'')) (row ''SYMBOL'')"

definition truthy_string :: "string option \<Rightarrow> bool" where
  "truthy_string v = (case v of None \<Rightarrow> False | Some s \<Rightarrow> s \<noteq> [])"

definition normalize_symbol :: "string \<Rightarrow> string" where
  "normalize_symbol s = toUpperCase (trim s)"

text \<open>The last \<^verbatim>\<open>map\<close> sees only cells the \<^verbatim>\<open>filter\<close> kept, which are strings.\<close>

definition extract_symbols :: "csv_row list \<Rightarrow> string list" where
  "extract_symbols csvData =
     map (\<lambda>v. normalize_symbol (the v)) (filter truthy_string (map symbol_cell csvData))"

text \<open>
  \<^verbatim>\<open>
  csvData.find(row => (row.symbol || row.Symbol || row.SYMBOL)?.trim().toUpperCase() === symbol)
  \<close>
  \<^verbatim>\<open>?.\<close> stops on \<^verbatim>\<open>undefined\<close> only; an empty cell is trimmed and compared.
\<close>

definition row_matches :: "string \<Rightarrow> csv_row \<Rightarrow> bool" where
  "row_matches symbol row = (case symbol_cell row of None \<Rightarrow> False | Some s \<Rightarrow> normalize_symbol s = symbol)"

definition find_row :: "csv_row list \<Rightarrow> string \<Rightarrow> csv_row option" where
  "find_row csvData symbol = find (row_matches symbol) csvData"

section \<open>The quote request of one symbol\<close>

text \<open>
  What \<^verbatim>\<open>fetch('/api/stock-quote', ...)\<close> gives: the promise rejects (a network failure)
  or resolves to a response. \<open>body\<close> is the parsed JSON body, \<open>None\<close> when the body is
  not JSON, so that \<^verbatim>\<open>response.json()\<close> rejects.
\<close>

record http_response =
  status :: nat
  headers :: "(string \<times> string) list"
  body :: "jsval option"

definition ok :: "http_response \<Rightarrow> bool" where
  "ok r = (200 \<le> status r \<and> status r \<le> 299)"

datatype fetch_result = NetworkError | Fetched http_response

datatype js_error = FetchRejected | HttpNotOk | JsonSyntaxError | TypeError

text \<open>
  \<^verbatim>\<open>
  const response = await fetch(...);
  if (!response.ok) { throw new Error(`Failed to fetch data for ${symbol}`); }
  const data = await response.json();
  \<close>
\<close>

definition response_data :: "fetch_result \<Rightarrow> js_error + jsval" where
  "response_data r =
     (case r of
        NetworkError \<Rightarrow> Inl FetchRejected
      | Fetched response \<Rightarrow>
          if \<not> ok response then Inl HttpNotOk
          else (case body response of
                  None \<Rightarrow> Inl JsonSyntaxError
                | Some data \<Rightarrow> Inr data))"

text \<open>The body \<^verbatim>\<open>JSON.stringify({ symbol })\<close> of a request.\<close>

definition request_body :: "jsval option \<Rightarrow> jsval" where
  "request_body symbol = (case symbol of None \<Rightarrow> JObj [] | Some v \<Rightarrow> JObj [(''symbol'', v)])"

section \<open>The callback of the initial load (\<^verbatim>\<open>handleCSVData\<close>)\<close>

text \<open>
  The object literal of the \<^verbatim>\<open>try\<close> branch (App.tsx, lines 42 to 58): the generated
  fields first, the matching CSV row spread last.
\<close>

definition success_entry :: "csv_row list \<Rightarrow> string \<Rightarrow> nat \<Rightarrow> jsval \<Rightarrow> string \<Rightarrow> stock" where
  "success_entry csvData symbol index data now =
     [''id'' \<mapsto> JNum (of_nat (index + 1)),
      ''symbol'' \<mapsto> JStr symbol,
      ''companyName'' \<mapsto> or_default (get data ''companyName'') (JStr symbol),
      ''ltp'' \<mapsto> or_default (get data ''ltp'') (JNum 0),
      ''open'' \<mapsto> or_default (get data ''open'') (JNum 0),
      ''high'' \<mapsto> or_default (get data ''high'') (JNum 0),
      ''low'' \<mapsto> or_default (get data ''low'') (JNum 0),
      ''previousClose'' \<mapsto> or_default (get data ''previousClose'') (JNum 0),
      ''change'' \<mapsto> or_default (get data ''change'') (JNum 0),
      ''changePercent'' \<mapsto> or_default (get data ''changePercent'') (JNum 0),
      ''volume'' \<mapsto> or_default (get data ''volume'') (JNum 0),
      ''lastUpdated'' \<mapsto> JStr now]
     ++ spread_row (find_row csvData symbol)"

text \<open>The object literal of the \<^verbatim>\<open>catch\<close> branch (App.tsx, lines 61 to 78).\<close>

definition failure_entry :: "csv_row list \<Rightarrow> string \<Rightarrow> nat \<Rightarrow> string \<Rightarrow> stock" where
  "failure_entry csvData symbol index now =
     [''id'' \<mapsto> JNum (of_nat (index + 1)),
      ''symbol'' \<mapsto> JStr symbol,
      ''companyName'' \<mapsto> JStr symbol,
      ''ltp'' \<mapsto> JNum 0,
      ''open'' \<mapsto> JNum 0,
      ''high'' \<mapsto> JNum 0,
      ''low'' \<mapsto> JNum 0,
      ''previousClose'' \<mapsto> JNum 0,
      ''change'' \<mapsto> JNum 0,
      ''changePercent'' \<mapsto> JNum 0,
      ''volume'' \<mapsto> JNum 0,
      ''lastUpdated'' \<mapsto> JStr now,
      ''error'' \<mapsto> JStr ''Failed to fetch data'']
     ++ spread_row (find_row csvData symbol)"

text \<open>
  The \<^verbatim>\<open>try\<close> block of the callback: \<open>Inl\<close> is a throw. \<open>fetched\<close> is the outcome of
  this callback's request and \<open>now\<close> the time it reads. Reading \<^verbatim>\<open>data.companyName\<close>
  throws when the body is \<^verbatim>\<open>null\<close>.
\<close>

definition load_try :: "csv_row list \<Rightarrow> string \<Rightarrow> nat \<Rightarrow> fetch_result \<Rightarrow> string \<Rightarrow> js_error + stock" where
  "load_try csvData symbol index fetched now =
     (case response_data fetched of
        Inl e \<Rightarrow> Inl e
      | Inr data \<Rightarrow>
          (case data of
             JNull \<Rightarrow> Inl TypeError
           | _ \<Rightarrow> Inr (success_entry csvData symbol index data now)))"

text \<open>
  The async callback of \<^verbatim>\<open>symbols.map(async (symbol, index) => { try ... catch ... })\<close>.
  Its result is the settled promise: \<open>Inr\<close> fulfilled, \<open>Inl\<close> rejected. \<open>net index\<close> is
  the outcome of the request issued at position \<open>index\<close>, \<open>clock index\<close> the time read there.
\<close>

definition load_callback ::
  "csv_row list \<Rightarrow> (nat \<Rightarrow> fetch_result) \<Rightarrow> (nat \<Rightarrow> string) \<Rightarrow> string \<Rightarrow> nat \<Rightarrow> js_error + stock" where
  "load_callback csvData net clock symbol index =
     (case load_try csvData symbol index (net index) (clock index) of
        Inr entry \<Rightarrow> Inr entry
      | Inl error \<Rightarrow> Inr (failure_entry csvData symbol index (clock index)))"

text \<open>\<^verbatim>\<open>xs.map((x, index) => f(x, index))\<close>, counting from \<open>i\<close>.\<close>

fun map_indexed :: "('a \<Rightarrow> nat \<Rightarrow> 'b) \<Rightarrow> nat \<Rightarrow> 'a list \<Rightarrow> 'b list" where
  "map_indexed f i [] = []"
| "map_indexed f i (x # xs) = f x i # map_indexed f (i + 1) xs"

text \<open>
  \<^verbatim>\<open>await Promise.all(promises)\<close>: the results in the order of the promises, or the
  first rejection.
\<close>

fun promise_all :: "('e + 'a) list \<Rightarrow> 'e + 'a list" where
  "promise_all [] = Inr []"
| "promise_all (p # ps) =
     (case p of
        Inl e \<Rightarrow> Inl e
      | Inr x \<Rightarrow> (case promise_all ps of Inl e \<Rightarrow> Inl e | Inr xs \<Rightarrow> Inr (x # xs)))"

section \<open>The callback of a refresh (\<^verbatim>\<open>refreshStockData\<close>)\<close>

text \<open>
  \<^verbatim>\<open>
  const stockPromises = symbols.map(async (symbol, index) => {
    try {
      ... fetch, ok test, json ...
      const existingStock = stocks.find(s => s.symbol === symbol);
      return { ...existingStock, ltp: data.ltp || 0, ..., lastUpdated: new Date().toISOString() };
    } catch (error) {
      return stocks.find(s => s.symbol === symbol) || stocks[index];
    }
  });
  \<close>
  \<^verbatim>\<open>Stock.symbol\<close> is a string, on which \<^verbatim>\<open>===\<close> is equality. \<open>index\<close> is a position
  of \<open>stocks\<close>, so \<open>stocks ! index\<close> is in range.
\<close>

definition find_stock :: "stock list \<Rightarrow> jsval option \<Rightarrow> stock option" where
  "find_stock stocks symbol = find (\<lambda>s. s ''symbol'' = symbol) stocks"

definition refreshed_entry :: "stock list \<Rightarrow> jsval option \<Rightarrow> jsval \<Rightarrow> string \<Rightarrow> stock" where
  "refreshed_entry stocks symbol data now =
     (spread_stock (find_stock stocks symbol))
       (''ltp'' \<mapsto> or_default (get data ''ltp'') (JNum 0),
        ''open'' \<mapsto> or_default (get data ''open'') (JNum 0),
        ''high'' \<mapsto> or_default (get data ''high'') (JNum 0),
        ''low'' \<mapsto> or_default (get data ''low'') (JNum 0),
        ''previousClose'' \<mapsto> or_default (get data ''previousClose'') (JNum 0),
        ''change'' \<mapsto> or_default (get data ''change'') (JNum 0),
        ''changePercent'' \<mapsto> or_default (get data ''changePercent'') (JNum 0),
        ''volume'' \<mapsto> or_default (get data ''volume'') (JNum 0),
        ''lastUpdated'' \<mapsto> JStr now)"

definition refresh_try :: "stock list \<Rightarrow> jsval option \<Rightarrow> fetch_result \<Rightarrow> string \<Rightarrow> js_error + stock" where
  "refresh_try stocks symbol fetched now =
     (case response_data fetched of
        Inl e \<Rightarrow> Inl e
      | Inr data \<Rightarrow>
          (case data of
             JNull \<Rightarrow> Inl TypeError
           | _ \<Rightarrow> Inr (refreshed_entry stocks symbol data now)))"

definition refresh_callback ::
  "stock list \<Rightarrow> (nat \<Rightarrow> fetch_result) \<Rightarrow> (nat \<Rightarrow> string) \<Rightarrow> jsval option \<Rightarrow> nat \<Rightarrow> js_error + stock" where
  "refresh_callback stocks net clock symbol index =
     (case refresh_try stocks symbol (net index) (clock index) of
        Inr entry \<Rightarrow> Inr entry
      | Inl error \<Rightarrow>
          Inr (case find_stock stocks symbol of
                 Some s \<Rightarrow> s
               | None \<Rightarrow> stocks ! index))"

section \<open>The application state and its handlers\<close>

text \<open>
  The two pieces of React state of \<^verbatim>\<open>App\<close>, and what one handler does to them: the
  states it writes, in order, the request bodies it sends, and the alerts it raises.
  Every call of \<^verbatim>\<open>setStocks\<close> or \<^verbatim>\<open>setLoading\<close> is one write; when React renders
  a written state is not part of the model.
\<close>

record app_state =
  stocks :: "stock list"
  loading :: bool

datatype alert = Alert string | AlertError js_error

record run =
  states :: "app_state list"
  requests :: "jsval list"
  alerts :: "alert list"

definition final_state :: "app_state \<Rightarrow> run \<Rightarrow> app_state" where
  "final_state st r = (if states r = [] then st else last (states r))"

definition no_symbols_message :: string where
  \<open>no_symbols_message =
     ''No valid stock symbols found in CSV. Please ensure your CSV has a "symbol" column.''\<close>

text \<open>
  \<^verbatim>\<open>
  const handleCSVData = async (csvData: any[]) => {
    setLoading(true);
    try {
      const symbols = ...;
      if (symbols.length === 0) {
        throw new Error('No valid stock symbols found in CSV. ...');
      }
      const stockPromises = symbols.map(async (symbol, index) => { ... });
      const stockResults = await Promise.all(stockPromises);
      setStocks(stockResults);
    } catch (error) {
      console.error('Error processing CSV:', error);
      alert(error instanceof Error ? error.message : 'Error processing CSV file');
    } finally {
      setLoading(false);
    }
  };
  \<close>
\<close>

definition handleCSVData ::
  "app_state \<Rightarrow> csv_row list \<Rightarrow> (nat \<Rightarrow> fetch_result) \<Rightarrow> (nat \<Rightarrow> string) \<Rightarrow> run" where
  "handleCSVData st csvData net clock =
     (let st1 = st\<lparr>loading := True\<rparr>;
          symbols = extract_symbols csvData
      in if length symbols = 0
         then \<lparr>states = [st1, st1\<lparr>loading := False\<rparr>],
               requests = [],
               alerts = [Alert no_symbols_message]\<rparr>
         else (case promise_all (map_indexed (load_callback csvData net clock) 0 symbols) of
                 Inr stockResults \<Rightarrow>
                   (let st2 = st1\<lparr>stocks := stockResults\<rparr>
                    in \<lparr>states = [st1, st2, st2\<lparr>loading := False\<rparr>],
                        requests = map (\<lambda>symbol. request_body (Some (JStr symbol))) symbols,
                        alerts = []\<rparr>)
               | Inl error \<Rightarrow>
                   \<lparr>states = [st1, st1\<lparr>loading := False\<rparr>],
                    requests = map (\<lambda>symbol. request_body (Some (JStr symbol))) symbols,
                    alerts = [AlertError error]\<rparr>))"

text \<open>
  The uploader's \<^verbatim>\<open>reader.onload\<close>: a parse error stays in the uploader (\<open>Inl\<close>, shown
  inline) and \<^verbatim>\<open>onDataLoaded\<close> is not called.
\<close>

definition upload ::
  "app_state \<Rightarrow> string \<Rightarrow> (nat \<Rightarrow> fetch_result) \<Rightarrow> (nat \<Rightarrow> string) \<Rightarrow> string + run" where
  "upload st text net clock =
     (case parseCSV text of
        Inl MalformedInput \<Rightarrow> Inl ''CSV file must contain at least a header row and one data row.''
      | Inr data \<Rightarrow> Inr (handleCSVData st data net clock))"

text \<open>
  \<^verbatim>\<open>
  const refreshStockData = async () => {
    if (stocks.length === 0) return;
    setLoading(true);
    const symbols = stocks.map(stock => stock.symbol);
    try {
      const stockPromises = symbols.map(async (symbol, index) => { ... });
      const stockResults = await Promise.all(stockPromises);
      setStocks(stockResults);
    } catch (error) {
      alert('Error refreshing stock data');
    } finally {
      setLoading(false);
    }
  };
  \<close>
\<close>

definition refreshStockData ::
  "app_state \<Rightarrow> (nat \<Rightarrow> fetch_result) \<Rightarrow> (nat \<Rightarrow> string) \<Rightarrow> run" where
  "refreshStockData st net clock =
     (if length (stocks st) = 0 then \<lparr>states = [], requests = [], alerts = []\<rparr>
      else (let st1 = st\<lparr>loading := True\<rparr>;
                symbols = map (\<lambda>stock. stock ''symbol'') (stocks st)
            in case promise_all (map_indexed (refresh_callback (stocks st) net clock) 0 symbols) of
                 Inr stockResults \<Rightarrow>
                   (let st2 = st1\<lparr>stocks := stockResults\<rparr>
                    in \<lparr>states = [st1, st2, st2\<lparr>loading := False\<rparr>],
                        requests = map request_body symbols,
                        alerts = []\<rparr>)
               | Inl error \<Rightarrow>
                   \<lparr>states = [st1, st1\<lparr>loading := False\<rparr>],
                    requests = map request_body symbols,
                    alerts = [Alert ''Error refreshing stock data'']\<rparr>))"

text \<open>The button "Upload New CSV": \<^verbatim>\<open>setStocks([])\<close>.\<close>

definition clear :: "app_state \<Rightarrow> app_state" where
  "clear st = st\<lparr>stocks := []\<rparr>"

text \<open>
  The session states of the specification, read off the two state variables: the
  uploader is shown when there are no entries, the table otherwise, and \<open>loading\<close>
  marks a fetch in flight.
\<close>

datatype phase = Empty | Loading | Loaded

definition phase_of :: "app_state \<Rightarrow> phase" where
  "phase_of st = (if loading st then Loading else if stocks st = [] then Empty else Loaded)"

section \<open>Binary64 numbers\<close>

text \<open>
  The proxy computes with JavaScript numbers, which are binary64 floating-point numbers:
  \<^verbatim>\<open>NaN\<close>, an infinity with its sign (\<open>True\<close> for the positive one), or a finite number,
  held as the rational it denotes. The sign of a zero is not modelled. It disappears from
  a response: \<^verbatim>\<open>JSON.stringify\<close> writes \<^verbatim>\<open>-0\<close> as \<^verbatim>\<open>0\<close>, and the only other thing that
  depends on it is the sign of the infinity a division by zero gives, which
  \<^verbatim>\<open>JSON.stringify\<close> writes as \<^verbatim>\<open>null\<close> whatever its sign.
\<close>

datatype number = Finite rat | Infinity bool | NaN

text \<open>
  Rounding to the nearest integer, a tie going to the even one.
\<close>

definition rne :: "rat \<Rightarrow> int" where
  "rne z =
     (let f = \<lfloor>z\<rfloor>; r = z - of_int f
      in if r < 1 / 2 then f
         else if 1 / 2 < r then f + 1
         else if even f then f
         else f + 1)"

text \<open>
  \<open>ilog2 x\<close> is the exponent \<open>k\<close> with \<open>2^k \<le> x < 2^(k+1)\<close> of a positive \<open>x\<close> (lemma
  \<open>ilog2_bounds\<close>): the difference of the bit lengths of its numerator and denominator,
  or one less.
\<close>

definition ilog2 :: "rat \<Rightarrow> int" where
  "ilog2 x =
     (let k = bitlen (fst (quotient_of x)) - bitlen (snd (quotient_of x))
      in if 2 powi k \<le> x then k else k - 1)"

text \<open>
  The binary64 numbers around \<open>x\<close> are the multiples of \<open>2^quantum x\<close>: 53 significant
  bits for a normal number, and multiples of \<open>2^-1074\<close> below \<open>2^-1022\<close>. \<open>nearest x\<close> is
  the nearest one, a tie going to the even significand, and \<open>round_binary64\<close> is the
  rounding of IEEE 754 in the default mode: a result of magnitude \<open>2^1024\<close> or more is an
  infinity.
\<close>

definition quantum :: "rat \<Rightarrow> int" where
  "quantum x = max (ilog2 \<bar>x\<bar> - 52) (- 1074)"

definition nearest :: "rat \<Rightarrow> rat" where
  "nearest x = of_int (rne (x / 2 powi quantum x)) * 2 powi quantum x"

definition round_binary64 :: "rat \<Rightarrow> number" where
  "round_binary64 x =
     (if x = 0 then Finite 0
      else if 2 ^ 1024 \<le> \<bar>nearest x\<bar> then Infinity (0 < x)
      else Finite (nearest x))"

text \<open>
  The operators \<^verbatim>\<open>-\<close>, \<^verbatim>\<open>*\<close> and \<^verbatim>\<open>/\<close>: the exact result, rounded.
\<close>

fun fsub :: "number \<Rightarrow> number \<Rightarrow> number" where
  "fsub (Finite a) (Finite b) = round_binary64 (a - b)"
| "fsub (Finite a) (Infinity t) = Infinity (\<not> t)"
| "fsub (Infinity s) (Finite b) = Infinity s"
| "fsub (Infinity s) (Infinity t) = (if s = t then NaN else Infinity s)"
| "fsub NaN y = NaN"
| "fsub x NaN = NaN"

fun fmul :: "number \<Rightarrow> number \<Rightarrow> number" where
  "fmul (Finite a) (Finite b) = round_binary64 (a * b)"
| "fmul (Finite a) (Infinity t) = (if a = 0 then NaN else Infinity (t = (0 < a)))"
| "fmul (Infinity s) (Finite b) = (if b = 0 then NaN else Infinity (s = (0 < b)))"
| "fmul (Infinity s) (Infinity t) = Infinity (s = t)"
| "fmul NaN y = NaN"
| "fmul x NaN = NaN"

fun fdiv :: "number \<Rightarrow> number \<Rightarrow> number" where
  "fdiv (Finite a) (Finite b) =
     (if b = 0 then (if a = 0 then NaN else Infinity (0 < a)) else round_binary64 (a / b))"
| "fdiv (Finite a) (Infinity t) = Finite 0"
| "fdiv (Infinity s) (Finite b) = Infinity (s = (0 \<le> b))"
| "fdiv (Infinity s) (Infinity t) = NaN"
| "fdiv NaN y = NaN"
| "fdiv x NaN = NaN"

text \<open>
  \<^verbatim>\<open>x.toFixed(f)\<close> of a finite \<open>x\<close> of magnitude under \<open>10^21\<close> works on the sign and the
  magnitude: the digits are those of the integer \<open>n\<close> with \<open>n / 10^f\<close> nearest to the
  magnitude, the larger one of two. \<^verbatim>\<open>parseFloat\<close> reads the decimal as the nearest
  binary64 number. A magnitude of \<open>10^21\<close> or more is printed by \<^verbatim>\<open>toFixed\<close> as
  \<^verbatim>\<open>String(x)\<close>, which \<^verbatim>\<open>parseFloat\<close> reads back as \<open>x\<close>, and so are \<^verbatim>\<open>NaN\<close> and the
  infinities.
\<close>

definition toFixed :: "rat \<Rightarrow> nat \<Rightarrow> rat" where
  "toFixed x f = sgn x * (of_int \<lfloor>\<bar>x\<bar> * 10 ^ f + 1 / 2\<rfloor> / 10 ^ f)"

fun parseFloat_toFixed :: "number \<Rightarrow> nat \<Rightarrow> number" where
  "parseFloat_toFixed (Finite x) f =
     (if 10 ^ 21 \<le> \<bar>x\<bar> then Finite x else round_binary64 (toFixed x f))"
| "parseFloat_toFixed (Infinity s) f = Infinity s"
| "parseFloat_toFixed NaN f = NaN"

text \<open>
  \<^verbatim>\<open>JSON.stringify\<close> writes a finite number with digits that read back as the same
  number, and \<^verbatim>\<open>NaN\<close> and the infinities as \<^verbatim>\<open>null\<close>.
\<close>

fun json_of_number :: "number \<Rightarrow> jsval" where
  "json_of_number (Finite x) = JNum x"
| "json_of_number (Infinity s) = JNull"
| "json_of_number NaN = JNull"

text \<open>
  Every finite binary64 number is a multiple of \<open>2^-1074\<close>, the smallest positive one.
  \<open>on_grid\<close> is used in the proofs only.
\<close>

definition on_grid :: "rat \<Rightarrow> bool" where
  "on_grid x = (\<exists>m::int. x = of_int m * 2 powi (- 1074))"

section \<open>The quote proxy (the \<^verbatim>\<open>Deno.serve\<close> handler)\<close>

text \<open>
  \<^verbatim>\<open>
  interface UpstoxQuoteResponse {
    status: string;
    data: { [symbol: string]: {
      ohlc: { open: number; high: number; low: number; close: number; };
      ltp: number; prev_close_price: number; volume: number; }; };
  }
  \<close>
  The reply of the provider is JSON text. A number field of the records below is the
  number its text denotes; \<^verbatim>\<open>upstoxResponse.json()\<close> reads it as the nearest binary64
  number, which is \<open>round_binary64\<close> of the field.
\<close>

record ohlc_prices =
  open_price :: rat
  high :: rat
  low :: rat
  close_price :: rat

record stock_data =
  ohlc :: ohlc_prices
  ltp :: rat
  prev_close_price :: rat
  volume :: rat

record upstox_quote_response =
  up_status :: string
  up_data :: "(string \<times> stock_data) list option"

text \<open>
  The provider's answer to \<^verbatim>\<open>fetch(upstoxUrl, ...)\<close>: the promise rejects with a
  message, or there is a reply with its status, its text and its JSON (\<open>Inl\<close> the
  message of the error \<^verbatim>\<open>upstoxResponse.json()\<close> throws).
\<close>

datatype upstream_result =
    Rejected string
  | Replied nat string "string + upstox_quote_response"

text \<open>
  The request: its method and its body. The body is JSON of the shape
  \<^verbatim>\<open>{ "symbol": string }\<close>, the symbol possibly missing, or it is not JSON and
  \<^verbatim>\<open>req.json()\<close> throws with a message.
\<close>

datatype request_json = NotJson string | Json "string option"

record proxy_request =
  req_method :: string
  req_json :: request_json

definition corsHeaders :: "(string \<times> string) list" where
  "corsHeaders =
     [(''Access-Control-Allow-Origin'', ''*''),
      (''Access-Control-Allow-Methods'', ''GET, POST, PUT, DELETE, OPTIONS''),
      (''Access-Control-Allow-Headers'', ''Content-Type, Authorization'')]"

definition json_response :: "nat \<Rightarrow> jsval \<Rightarrow> http_response" where
  "json_response code payload =
     \<lparr>status = code,
      headers = corsHeaders @ [(''Content-Type'', ''application/json'')],
      body = Some payload\<rparr>"

text \<open>The outer \<^verbatim>\<open>catch\<close> of the handler.\<close>

definition failed_response :: "string \<Rightarrow> http_response" where
  "failed_response message =
     json_response 500
       (JObj [(''error'', JStr ''Failed to fetch stock data''), (''message'', JStr message)])"

definition json_of_stock_data :: "stock_data \<Rightarrow> jsval" where
  "json_of_stock_data sd =
     JObj [(''ohlc'', JObj [(''open'', json_of_number (round_binary64 (open_price (ohlc sd)))),
                           (''high'', json_of_number (round_binary64 (high (ohlc sd)))),
                           (''low'', json_of_number (round_binary64 (low (ohlc sd)))),
                           (''close'', json_of_number (round_binary64 (close_price (ohlc sd))))]),
           (''ltp'', json_of_number (round_binary64 (ltp sd))),
           (''prev_close_price'', json_of_number (round_binary64 (prev_close_price sd))),
           (''volume'', json_of_number (round_binary64 (volume sd)))]"

definition json_of_quote_response :: "upstox_quote_response \<Rightarrow> jsval" where
  "json_of_quote_response r =
     JObj ((''status'', JStr (up_status r)) #
           (case up_data r of
              None \<Rightarrow> []
            | Some d \<Rightarrow> [(''data'', JObj (map (\<lambda>(k, sd). (k, json_of_stock_data sd)) d))]))"

text \<open>
  \<^verbatim>\<open>
  const change = stockData.ltp - stockData.prev_close_price;
  const changePercent = (change / stockData.prev_close_price) * 100;
  const responseData = {
    companyName: symbol, ltp: stockData.ltp, open: stockData.ohlc.open,
    high: stockData.ohlc.high, low: stockData.ohlc.low,
    previousClose: stockData.prev_close_price,
    change: parseFloat(change.toFixed(2)),
    changePercent: parseFloat(changePercent.toFixed(2)),
    volume: stockData.volume,
  };
  \<close>
  The subtraction, the division and the multiplication each round their result. A
  division by zero gives \<^verbatim>\<open>NaN\<close> or an infinity, which \<^verbatim>\<open>toFixed\<close> and \<^verbatim>\<open>parseFloat\<close>
  keep and \<^verbatim>\<open>JSON.stringify\<close> writes as \<^verbatim>\<open>null\<close>.
\<close>

definition responseData :: "string \<Rightarrow> stock_data \<Rightarrow> jsval" where
  "responseData symbol stockData =
     (let stockData_ltp = round_binary64 (ltp stockData);
          stockData_prev_close_price = round_binary64 (prev_close_price stockData);
          change = fsub stockData_ltp stockData_prev_close_price;
          changePercent = fmul (fdiv change stockData_prev_close_price) (Finite 100)
      in JObj [(''companyName'', JStr symbol),
               (''ltp'', json_of_number stockData_ltp),
               (''open'', json_of_number (round_binary64 (open_price (ohlc stockData)))),
               (''high'', json_of_number (round_binary64 (high (ohlc stockData)))),
               (''low'', json_of_number (round_binary64 (low (ohlc stockData)))),
               (''previousClose'', json_of_number stockData_prev_close_price),
               (''change'', json_of_number (parseFloat_toFixed change 2)),
               (''changePercent'', json_of_number (parseFloat_toFixed changePercent 2)),
               (''volume'', json_of_number (round_binary64 (volume stockData)))])"

text \<open>
  The handler. \<open>accessToken\<close> is the environment variable, \<open>upstream\<close> the provider's
  answer to the request for a symbol.
\<close>

definition proxy_handler ::
  "proxy_request \<Rightarrow> string option \<Rightarrow> (string \<Rightarrow> upstream_result) \<Rightarrow> http_response" where
  "proxy_handler req accessToken upstream =
     (if req_method req = ''OPTIONS'' then \<lparr>status = 200, headers = corsHeaders, body = None\<rparr>
      else
        (case req_json req of
           NotJson message \<Rightarrow> failed_response message
         | Json None \<Rightarrow> json_response 400 (JObj [(''error'', JStr ''Symbol is required'')])
         | Json (Some symbol) \<Rightarrow>
             if symbol = [] then json_response 400 (JObj [(''error'', JStr ''Symbol is required'')])
             else if accessToken = None \<or> accessToken = Some []
             then json_response 500 (JObj [(''error'', JStr ''Upstox access token not configured'')])
             else
               (case upstream symbol of
                  Rejected message \<Rightarrow> failed_response message
                | Replied code errorText parsed \<Rightarrow>
                    if \<not> (200 \<le> code \<and> code \<le> 299)
                    then json_response code
                           (JObj [(''error'', JStr (''Failed to fetch data for '' @ symbol)),
                                  (''details'', JStr errorText)])
                    else
                      (case parsed of
                         Inl message \<Rightarrow> failed_response message
                       | Inr upstoxData \<Rightarrow>
                           (case (if up_status upstoxData \<noteq> ''success'' then None
                                  else up_data upstoxData) of
                              None \<Rightarrow>
                                json_response 404
                                  (JObj [(''error'', JStr (''No data available for '' @ symbol)),
                                         (''details'', json_of_quote_response upstoxData)])
                            | Some d \<Rightarrow>
                                (case map_of (rev d) (''NSE_EQ|'' @ symbol) of
                                   None \<Rightarrow>
                                     json_response 404
                                       (JObj [(''error'', JStr (''No data found for symbol '' @ symbol)),
                                              (''availableSymbols'', JArr (map JStr (remdups (map fst d))))])
                                 | Some stockData \<Rightarrow>
                                     json_response 200 (responseData symbol stockData)))))))"

text \<open>
  The repository holds a second variant of the handler, which answers with numbers drawn
  from \<^verbatim>\<open>Math.random()\<close> in place of the provider's. It is not part of this model.
\<close>

section \<open>Rules for evaluating the model on concrete inputs\<close>

lemmas string_eval = trim_def is_ws_def clean_def line_fields_def text_lines_def mk_row_def

lemmas string_eval2 = normalize_symbol_def toUpperCase_def upper_char_def

lemmas extract_eval = extract_symbols_def symbol_cell_def str_or_def truthy_string_def

lemmas load_eval = handleCSVData_def Let_def final_state_def load_callback_def load_try_def
  response_data_def ok_def failure_entry_def success_entry_def spread_row_def find_row_def
  row_matches_def or_default_def request_body_def map_add_def

lemmas refresh_eval = refreshStockData_def refresh_callback_def refresh_try_def refreshed_entry_def
  find_stock_def spread_stock_def

lemmas upload_eval = upload_def parseCSV_def parse_rows.simps

section \<open>General lemmas\<close>

subsection \<open>Indexed maps and settled promises\<close>

lemma length_map_indexed: "length (map_indexed f k xs) = length xs"
  by (induction xs arbitrary: k) auto

lemma nth_map_indexed: "i < length xs \<Longrightarrow> map_indexed f k xs ! i = f (xs ! i) (k + i)"
proof (induction xs arbitrary: k i)
  case Nil
  then show ?case by simp
next
  case (Cons x xs)
  then show ?case by (cases i) auto
qed

lemma promise_all_fulfilled:
  "promise_all (map_indexed (\<lambda>x i. Inr (g x i)) k xs) = Inr (map_indexed g k xs)"
  by (induction xs arbitrary: k) auto

lemma find_first:
  assumes "i < length xs" and "P (xs ! i)" and "\<forall>j<i. \<not> P (xs ! j)"
  shows "find P xs = Some (xs ! i)"
  using assms by (auto simp: find_Some_iff)

subsection \<open>The initial load\<close>

text \<open>
  No callback of the initial load rejects, so \<^verbatim>\<open>Promise.all\<close> is fulfilled with the
  entries the callbacks settle to.
\<close>

lemma load_results:
  "promise_all (map_indexed (load_callback csvData net clock) k symbols) =
     Inr (map_indexed
            (\<lambda>symbol index.
               case load_try csvData symbol index (net index) (clock index) of
                 Inr entry \<Rightarrow> entry
               | Inl e \<Rightarrow> failure_entry csvData symbol index (clock index))
            k symbols)"
proof -
  have "load_callback csvData net clock =
          (\<lambda>symbol index.
             Inr (case load_try csvData symbol index (net index) (clock index) of
                    Inr entry \<Rightarrow> entry
                  | Inl e \<Rightarrow> failure_entry csvData symbol index (clock index)))"
    by (auto simp: load_callback_def fun_eq_iff split: sum.splits)
  then show ?thesis
    by (simp only: promise_all_fulfilled)
qed

lemma load_try_failures:
  "load_try csvData symbol index NetworkError now = Inl FetchRejected"
  "\<not> ok r \<Longrightarrow> load_try csvData symbol index (Fetched r) now = Inl HttpNotOk"
  "ok r \<Longrightarrow> body r = None \<Longrightarrow> load_try csvData symbol index (Fetched r) now = Inl JsonSyntaxError"
  "ok r \<Longrightarrow> body r = Some JNull \<Longrightarrow> load_try csvData symbol index (Fetched r) now = Inl TypeError"
  by (simp_all add: load_try_def response_data_def)

lemma load_try_Inr:
  assumes "load_try csvData symbol index fetched now = Inr entry"
  shows "\<exists>data. entry = success_entry csvData symbol index data now"
  using assms
  by (auto simp: load_try_def split: sum.splits jsval.splits)

lemma handleCSVData_stocks:
  assumes "extract_symbols csvData \<noteq> []"
  shows "stocks (final_state st (handleCSVData st csvData net clock)) =
           map_indexed
             (\<lambda>symbol index.
                case load_try csvData symbol index (net index) (clock index) of
                  Inr entry \<Rightarrow> entry
                | Inl e \<Rightarrow> failure_entry csvData symbol index (clock index))
             0 (extract_symbols csvData)"
  using assms
  by (simp add: handleCSVData_def Let_def load_results final_state_def)

lemma handleCSVData_nth:
  assumes "i < length (extract_symbols csvData)"
  shows "stocks (final_state st (handleCSVData st csvData net clock)) ! i =
           (case load_try csvData (extract_symbols csvData ! i) i (net i) (clock i) of
              Inr entry \<Rightarrow> entry
            | Inl e \<Rightarrow> failure_entry csvData (extract_symbols csvData ! i) i (clock i))"
proof -
  from assms have "extract_symbols csvData \<noteq> []" by auto
  then show ?thesis
    using assms by (simp add: handleCSVData_stocks nth_map_indexed)
qed

text \<open>
  The only alert of the initial load is the one of a CSV without a valid symbol: the outer
  \<^verbatim>\<open>catch\<close> is never entered for a failed request.
\<close>

lemma handleCSVData_alerts:
  "alerts (handleCSVData st csvData net clock) =
     (if extract_symbols csvData = [] then [Alert no_symbols_message] else [])"
  by (simp add: handleCSVData_def Let_def load_results)

text \<open>
  Every extracted symbol is matched by a row of the CSV data: the row it was read from,
  or an earlier row of the same normalised symbol.
\<close>

lemma extract_symbols_matched:
  assumes "symbol \<in> set (extract_symbols csvData)"
  shows "\<exists>row. find_row csvData symbol = Some row"
proof -
  from assms obtain row where row: "row \<in> set csvData" "truthy_string (symbol_cell row)"
      "symbol = normalize_symbol (the (symbol_cell row))"
    by (auto simp: extract_symbols_def)
  then have "row_matches symbol row"
    by (auto simp: row_matches_def truthy_string_def split: option.splits)
  with row(1) have "find (row_matches symbol) csvData \<noteq> None"
    by (auto simp: find_None_iff)
  then show ?thesis by (auto simp: find_row_def)
qed

lemma find_row_first:
  assumes "j < length csvData" and "row_matches symbol (csvData ! j)"
    and "\<forall>k<j. \<not> row_matches symbol (csvData ! k)"
  shows "find_row csvData symbol = Some (csvData ! j)"
  unfolding find_row_def using assms by (intro find_first) auto

subsection \<open>The refresh\<close>

lemma refresh_results:
  "promise_all (map_indexed (refresh_callback sts net clock) k symbols) =
     Inr (map_indexed
            (\<lambda>symbol index.
               case refresh_try sts symbol (net index) (clock index) of
                 Inr entry \<Rightarrow> entry
               | Inl e \<Rightarrow> (case find_stock sts symbol of Some s \<Rightarrow> s | None \<Rightarrow> sts ! index))
            k symbols)"
proof -
  have "refresh_callback sts net clock =
          (\<lambda>symbol index.
             Inr (case refresh_try sts symbol (net index) (clock index) of
                    Inr entry \<Rightarrow> entry
                  | Inl e \<Rightarrow> (case find_stock sts symbol of Some s \<Rightarrow> s | None \<Rightarrow> sts ! index)))"
    by (auto simp: refresh_callback_def fun_eq_iff split: sum.splits)
  then show ?thesis
    by (simp only: promise_all_fulfilled)
qed

lemma refreshStockData_nth:
  assumes "i < length (stocks st)"
  shows "stocks (final_state st (refreshStockData st net clock)) ! i =
           (case refresh_try (stocks st) ((stocks st ! i) ''symbol'') (net i) (clock i) of
              Inr entry \<Rightarrow> entry
            | Inl e \<Rightarrow> (case find_stock (stocks st) ((stocks st ! i) ''symbol'') of
                          Some s \<Rightarrow> s
                        | None \<Rightarrow> stocks st ! i))"
proof -
  from assms have "stocks st \<noteq> []" by auto
  then show ?thesis
    using assms
    by (simp add: refreshStockData_def Let_def refresh_results final_state_def nth_map_indexed
        cong: sum.case_cong)
qed

lemma find_stock_first:
  assumes "i < length sts" and "\<forall>j<i. (sts ! j) ''symbol'' \<noteq> (sts ! i) ''symbol''"
  shows "find_stock sts ((sts ! i) ''symbol'') = Some (sts ! i)"
  unfolding find_stock_def using assms by (intro find_first) auto

section \<open>The quote-fetch step returns one result per symbol\<close>

text \<open>
  Claim C1. For every list of N input symbols the quote-fetch step returns exactly N
  results, in the order of the symbols, and never fails as a whole. The promise of every
  callback is fulfilled, so \<^verbatim>\<open>Promise.all\<close> is fulfilled (\<open>Inr\<close>) with a list as long
  as the list of symbols; the result at position \<open>i\<close> is built from the symbol and the
  response at position \<open>i\<close> alone, so a failure at one position leaves the results at
  the other positions as they are; and a network failure, a status outside 200..299, or a
  body that is not JSON (or is \<^verbatim>\<open>null\<close>) gives the failure entry of that symbol.
\<close>

theorem fetch_step_total:
  "\<exists>results.
     promise_all (map_indexed (load_callback csvData net clock) 0 symbols) = Inr results
     \<and> length results = length symbols
     \<and> (\<forall>i<length symbols.
          results ! i =
            (case load_try csvData (symbols ! i) i (net i) (clock i) of
               Inr entry \<Rightarrow> entry
             | Inl e \<Rightarrow> failure_entry csvData (symbols ! i) i (clock i)))
     \<and> (\<forall>i<length symbols.
          (net i = NetworkError
           \<or> (\<exists>r. net i = Fetched r \<and> (\<not> ok r \<or> body r = None \<or> body r = Some JNull)))
          \<longrightarrow> results ! i = failure_entry csvData (symbols ! i) i (clock i))"
proof -
  let ?settle = "\<lambda>symbol index.
         case load_try csvData symbol index (net index) (clock index) of
           Inr entry \<Rightarrow> entry
         | Inl e \<Rightarrow> failure_entry csvData symbol index (clock index)"
  let ?results = "map_indexed ?settle 0 symbols"
  have a: "promise_all (map_indexed (load_callback csvData net clock) 0 symbols) = Inr ?results"
    by (rule load_results)
  have b: "length ?results = length symbols"
    by (rule length_map_indexed)
  have c: "?results ! i = ?settle (symbols ! i) i" if "i < length symbols" for i
    using that by (simp add: nth_map_indexed)
  have d: "?results ! i = failure_entry csvData (symbols ! i) i (clock i)"
    if "i < length symbols"
      and "net i = NetworkError
           \<or> (\<exists>r. net i = Fetched r \<and> (\<not> ok r \<or> body r = None \<or> body r = Some JNull))" for i
  proof -
    from that(2) consider "net i = NetworkError"
      | r where "net i = Fetched r" "\<not> ok r"
      | r where "net i = Fetched r" "ok r" "body r = None"
      | r where "net i = Fetched r" "ok r" "body r = Some JNull"
      by blast
    then have "\<exists>e. load_try csvData (symbols ! i) i (net i) (clock i) = Inl e"
      by cases (simp_all add: load_try_failures)
    then obtain e where "load_try csvData (symbols ! i) i (net i) (clock i) = Inl e" ..
    with c [OF that(1)] show ?thesis by simp
  qed
  from a b c d show ?thesis
    by blast
qed

text \<open>
  The theorem at two symbols, the first request answered and the second failing on the
  network.
\<close>

theorem fetch_step_total_witness:
  "\<exists>results.
     promise_all (map_indexed
        (load_callback [[''symbol'' \<mapsto> ''RELIANCE'', ''quantity'' \<mapsto> ''100''],
                        [''symbol'' \<mapsto> ''TCS'', ''quantity'' \<mapsto> ''50'']]
           (\<lambda>i. if i = 0
                 then Fetched \<lparr>status = 200, headers = [],
                        body = Some (JObj [(''ltp'', JNum 2500), (''previousClose'', JNum 2450),
                                           (''change'', JNum 50), (''changePercent'', JNum (204 / 100))])\<rparr>
                 else NetworkError)
           (\<lambda>i. ''t''))
        0 [''RELIANCE'', ''TCS'']) = Inr results
     \<and> length results = 2
     \<and> (results ! 0) ''ltp'' = Some (JNum 2500)
     \<and> (results ! 0) ''error'' = None
     \<and> (results ! 0) ''quantity'' = Some (JStr ''100'')
     \<and> (results ! 1) ''ltp'' = Some (JNum 0)
     \<and> (results ! 1) ''error'' = Some (JStr ''Failed to fetch data'')
     \<and> (results ! 1) ''quantity'' = Some (JStr ''50'')"
proof -
  let ?csv = "[[''symbol'' \<mapsto> ''RELIANCE'', ''quantity'' \<mapsto> ''100''],
               [''symbol'' \<mapsto> ''TCS'', ''quantity'' \<mapsto> ''50'']]"
  let ?net = "\<lambda>i::nat. if i = 0
                 then Fetched \<lparr>status = 200, headers = [],
                        body = Some (JObj [(''ltp'', JNum 2500), (''previousClose'', JNum 2450),
                                           (''change'', JNum 50), (''changePercent'', JNum (204 / 100))])\<rparr>
                 else NetworkError"
  let ?clock = "\<lambda>i::nat. ''t''"
  let ?symbols = "[''RELIANCE'', ''TCS'']"
  from fetch_step_total [of ?csv ?net ?clock ?symbols] obtain results where
    r: "promise_all (map_indexed (load_callback ?csv ?net ?clock) 0 ?symbols) = Inr results"
      "length results = length ?symbols"
      "\<forall>i<length ?symbols.
          results ! i =
            (case load_try ?csv (?symbols ! i) i (?net i) (?clock i) of
               Inr entry \<Rightarrow> entry
             | Inl e \<Rightarrow> failure_entry ?csv (?symbols ! i) i (?clock i))"
      "\<forall>i<length ?symbols.
          (?net i = NetworkError
           \<or> (\<exists>r. ?net i = Fetched r \<and> (\<not> ok r \<or> body r = None \<or> body r = Some JNull)))
          \<longrightarrow> results ! i = failure_entry ?csv (?symbols ! i) i (?clock i)"
    by blast
  from r(3) [rule_format, of 0]
  have "(results ! 0) ''ltp'' = Some (JNum 2500)" "(results ! 0) ''error'' = None"
    "(results ! 0) ''quantity'' = Some (JStr ''100'')"
    by (simp_all add: load_eval extract_eval string_eval string_eval2)
  moreover from r(4) [rule_format, of 1]
  have "(results ! 1) ''ltp'' = Some (JNum 0)"
    "(results ! 1) ''error'' = Some (JStr ''Failed to fetch data'')"
    "(results ! 1) ''quantity'' = Some (JStr ''50'')"
    by (simp_all add: load_eval extract_eval string_eval string_eval2)
  ultimately show ?thesis
    using r(1,2) by simp
qed

section \<open>The merged entry and duplicated symbols\<close>

text \<open>
  The columns of the matching CSV row are spread last, so they take precedence over the
  generated and the fetched fields, whether the request succeeded or failed.
\<close>

lemma settled_entry_csv_field:
  assumes "find_row csvData symbol = Some row" and "row key = Some v"
  shows "(case load_try csvData symbol index fetched now of
            Inr entry \<Rightarrow> entry
          | Inl e \<Rightarrow> failure_entry csvData symbol index now) key = Some (JStr v)"
proof (cases "load_try csvData symbol index fetched now")
  case (Inl e)
  with assms show ?thesis
    by (simp add: failure_entry_def spread_row_def map_add_find_right)
next
  case (Inr entry)
  then obtain data where "entry = success_entry csvData symbol index data now"
    using load_try_Inr by blast
  with Inr assms show ?thesis
    by (simp add: success_entry_def spread_row_def map_add_find_right)
qed

lemma csv_columns_take_precedence:
  assumes "i < length (extract_symbols csvData)"
    and "find_row csvData (extract_symbols csvData ! i) = Some row"
    and "row key = Some v"
  shows "(stocks (final_state st (handleCSVData st csvData net clock)) ! i) key = Some (JStr v)"
  using assms by (simp add: handleCSVData_nth settled_entry_csv_field)

text \<open>
  Claim C2. The claim says that the entry at position \<open>i\<close> carries the fields of record
  \<open>i\<close>, CSV columns taking precedence over fetched fields, and that two rows of the same
  symbol each contribute their own fields to their own entry. The precedence holds
  (\<open>csv_columns_take_precedence\<close>), and the row found is the row the symbol was read from
  when no earlier row has the same normalised symbol (\<open>find_row_first\<close>). The row is
  looked up by symbol, though, and \<^verbatim>\<open>find\<close> returns the first match: for the CSV text
  \<^verbatim>\<open>symbol,quantity / INFY,100 / INFY,50\<close> the two records have the quantities 100 and 50
  and both entries have the quantity 100, whatever the network answers.
\<close>

theorem duplicate_symbol_rows_share_first_row:
  "(case parseCSV (''symbol,quantity'' @ [CHR 0x0A] @ ''INFY,100'' @ [CHR 0x0A] @ ''INFY,50'') of
      Inl e \<Rightarrow> []
    | Inr csvData \<Rightarrow>
        zip (map (\<lambda>row. row ''quantity'') csvData)
            (map (\<lambda>entry. entry ''quantity'')
               (stocks (final_state \<lparr>stocks = [], loading = False\<rparr>
                  (handleCSVData \<lparr>stocks = [], loading = False\<rparr> csvData net clock)))))
   = [(Some ''100'', Some (JStr ''100'')), (Some ''50'', Some (JStr ''100''))]"
proof -
  let ?r1 = "[''symbol'' \<mapsto> ''INFY'', ''quantity'' \<mapsto> ''100'']"
  let ?r2 = "[''symbol'' \<mapsto> ''INFY'', ''quantity'' \<mapsto> ''50'']"
  let ?st = "\<lparr>stocks = [], loading = False\<rparr>"
  have p: "parseCSV (''symbol,quantity'' @ [CHR 0x0A] @ ''INFY,100'' @ [CHR 0x0A] @ ''INFY,50'')
             = Inr [?r1, ?r2]"
    by (simp add: upload_eval string_eval)
  have e: "extract_symbols [?r1, ?r2] = [''INFY'', ''INFY'']"
    by (simp add: extract_eval string_eval string_eval2)
  have f: "find_row [?r1, ?r2] ''INFY'' = Some ?r1"
    by (simp add: find_row_def row_matches_def extract_eval string_eval string_eval2)
  have "(stocks (final_state ?st (handleCSVData ?st [?r1, ?r2] net clock)) ! i) ''quantity''
          = Some (JStr ''100'')" if "i < 2" for i
    using that e f csv_columns_take_precedence [of i "[?r1, ?r2]" ?r1 "''quantity''" "''100''" ?st net clock]
    by (cases i) auto
  from this [of 0] this [of 1]
  have q: "map (\<lambda>entry. entry ''quantity'') (stocks (final_state ?st (handleCSVData ?st [?r1, ?r2] net clock)))
        = [Some (JStr ''100''), Some (JStr ''100'')]"
    by (simp add: handleCSVData_stocks e)
  show ?thesis
    unfolding p by (simp add: q)
qed

section \<open>A failed refresh and duplicated symbols\<close>

text \<open>
  When the refresh request of an entry fails and no earlier entry has the same symbol,
  the entry is kept as it is.
\<close>

lemma refresh_failure_keeps_first_entry:
  assumes "i < length (stocks st)"
    and "\<forall>j<i. (stocks st ! j) ''symbol'' \<noteq> (stocks st ! i) ''symbol''"
    and "refresh_try (stocks st) ((stocks st ! i) ''symbol'') (net i) (clock i) = Inl e"
  shows "stocks (final_state st (refreshStockData st net clock)) ! i = stocks st ! i"
  using assms by (simp add: refreshStockData_nth find_stock_first)

text \<open>
  Claim C3. The claim says that an entry whose refresh request fails is in the resulting
  portfolio unchanged. The \<^verbatim>\<open>catch\<close> branch returns
  \<^verbatim>\<open>stocks.find(s => s.symbol === symbol) || stocks[index]\<close>: the first entry of that
  symbol, the entry at the position only as a fallback that is never reached. The
  portfolio loaded from \<^verbatim>\<open>symbol,quantity / INFY,100 / INFY,50\<close> has the entries with
  ids 1 and 2; after a refresh whose requests all fail it has two entries with id 1, and
  the entry with id 2 is gone.
\<close>

theorem refresh_failure_duplicate_symbol_replaces_entry:
  "(let st0 = \<lparr>stocks = [], loading = False\<rparr>;
        quote = Fetched \<lparr>status = 200, headers = [], body = Some (JObj [(''ltp'', JNum 1500)])\<rparr>;
        st1 = (case upload st0 (''symbol,quantity'' @ [CHR 0x0A] @ ''INFY,100'' @ [CHR 0x0A] @ ''INFY,50'')
                      (\<lambda>i. quote) (\<lambda>i. ''t1'') of
                 Inl message \<Rightarrow> st0
               | Inr r \<Rightarrow> final_state st0 r);
        st2 = final_state st1 (refreshStockData st1 (\<lambda>i. NetworkError) (\<lambda>i. ''t2''))
    in (map (\<lambda>entry. entry ''id'') (stocks st1), map (\<lambda>entry. entry ''id'') (stocks st2)))
   = ([Some (JNum 1), Some (JNum 2)], [Some (JNum 1), Some (JNum 1)])"
  by (simp add: upload_eval string_eval string_eval2 extract_eval load_eval refresh_eval)

section \<open>The rounding of binary64 arithmetic\<close>

text \<open>
  \<open>rne\<close> is within a half of its argument, and keeps an integer.
\<close>

lemma rne_close: "\<bar>of_int (rne z) - z\<bar> \<le> 1 / 2"
proof -
  define f where "f = \<lfloor>z\<rfloor>"
  have b: "of_int f \<le> z" "z < of_int f + 1" unfolding f_def by linarith+
  consider "z - of_int f < 1 / 2" | "1 / 2 < z - of_int f" | "z - of_int f = 1 / 2"
    by linarith
  then show ?thesis
  proof cases
    case 1
    then have "rne z = f" by (simp add: rne_def f_def)
    with 1 b show ?thesis by simp
  next
    case 2
    then have "rne z = f + 1" by (simp add: rne_def f_def)
    with 2 b show ?thesis by simp
  next
    case 3
    then have "rne z = f \<or> rne z = f + 1" by (simp add: rne_def f_def Let_def)
    with 3 show ?thesis by auto
  qed
qed

lemma rne_of_int: "rne (of_int m) = m"
  by (simp add: rne_def)

text \<open>
  \<open>ilog2\<close> is the binary exponent of a positive rational, and the only one.
\<close>

lemma ilog2_bounds:
  assumes "0 < x"
  shows "2 powi (ilog2 x) \<le> x" and "x < 2 powi (ilog2 x + 1)"
proof -
  obtain n d where q: "quotient_of x = (n, d)" by (cases "quotient_of x")
  then have d: "0 < d" by (rule quotient_of_denom_pos)
  from q have x: "x = of_int n / of_int d" by (rule quotient_of_div)
  with assms d have n: "0 < n" by (simp add: zero_less_divide_iff)
  let ?bn = "bitlen n" and ?bd = "bitlen d"
  from bitlen_bounds [OF n] have n1: "2 ^ nat (?bn - 1) \<le> n" and n2: "n < 2 ^ nat ?bn" by auto
  from bitlen_bounds [OF d] have d1: "2 ^ nat (?bd - 1) \<le> d" and d2: "d < 2 ^ nat ?bd" by auto
  from n have bn: "1 \<le> ?bn" by (auto simp: bitlen_alt_def)
  from d have bd: "1 \<le> ?bd" by (auto simp: bitlen_alt_def)
  have pw: "(2::rat) powi k = of_int (2 ^ nat k)" if "0 \<le> k" for k
    using that by (simp add: power_int_def)
  have rn1: "(2::rat) powi (?bn - 1) \<le> of_int n"
    using n1 bn by (simp only: pw of_int_le_iff)
  have rn2: "of_int n < (2::rat) powi ?bn"
    using n2 bn by (simp only: pw of_int_less_iff)
  have rd1: "(2::rat) powi (?bd - 1) \<le> of_int d"
    using d1 bd by (simp only: pw of_int_le_iff)
  have rd2: "of_int d < (2::rat) powi ?bd"
    using d2 bd by (simp only: pw of_int_less_iff)
  have dpos: "(0::rat) < of_int d" using d by simp
  have npos: "(0::rat) < of_int n" using n by simp
  have lo: "2 powi (?bn - ?bd - 1) < x"
  proof -
    have "2 powi (?bn - ?bd - 1) = (2::rat) powi (?bn - 1) / 2 powi ?bd"
      by (simp add: power_int_diff)
    also have "\<dots> \<le> of_int n / 2 powi ?bd"
      using rn1 by (simp add: divide_right_mono)
    also have "\<dots> < of_int n / of_int d"
      using rd2 dpos npos by (simp add: divide_strict_left_mono)
    finally show ?thesis by (simp add: x)
  qed
  have hi: "x < 2 powi (?bn - ?bd + 1)"
  proof -
    have "x = of_int n / of_int d" by (rule x)
    also have "\<dots> < 2 powi ?bn / of_int d"
      using rn2 dpos by (simp add: divide_strict_right_mono)
    also have "\<dots> \<le> 2 powi ?bn / 2 powi (?bd - 1)"
    proof (rule divide_left_mono [OF rd1])
      show "(0::rat) \<le> 2 powi ?bn" by (simp add: zero_le_power_int)
      have "(0::rat) < 2 powi (?bd - 1)" by (simp add: zero_less_power_int)
      with dpos show "(0::rat) < of_int d * 2 powi (?bd - 1)" by (rule mult_pos_pos)
    qed
    also have "\<dots> = (2::rat) powi (?bn - ?bd + 1)"
    proof -
      have "(2::rat) powi (?bn - (?bd - 1)) = 2 powi ?bn / 2 powi (?bd - 1)"
        by (rule power_int_diff) simp
      moreover have "?bn - (?bd - 1) = ?bn - ?bd + 1" by simp
      ultimately show ?thesis by (simp only:)
    qed
    finally show ?thesis .
  qed
  show "2 powi (ilog2 x) \<le> x"
    using lo by (auto simp: ilog2_def Let_def q)
  show "x < 2 powi (ilog2 x + 1)"
    using hi by (auto simp: ilog2_def Let_def q not_le)
qed

lemma ilog2_unique:
  assumes "2 powi k \<le> x" and "x < 2 powi (k + 1)"
  shows "ilog2 x = k"
proof -
  have "(0::rat) < 2 powi k" by simp
  with assms(1) have x: "0 < x" by linarith
  note b = ilog2_bounds [OF x]
  have "\<not> ilog2 x + 1 \<le> k"
  proof
    assume "ilog2 x + 1 \<le> k"
    then have "(2::rat) powi (ilog2 x + 1) \<le> 2 powi k" by (rule power_int_increasing) simp
    with b(2) assms(1) show False by linarith
  qed
  moreover have "\<not> k + 1 \<le> ilog2 x"
  proof
    assume "k + 1 \<le> ilog2 x"
    then have "(2::rat) powi (k + 1) \<le> 2 powi ilog2 x" by (rule power_int_increasing) simp
    with b(1) assms(2) show False by linarith
  qed
  ultimately show ?thesis by linarith
qed

text \<open>
  The error of rounding: at most half a quantum, which is a relative error of \<open>2^-53\<close>
  for a normal number and at most \<open>2^-1075\<close> below. A multiple of \<open>2^-1074\<close> is rounded
  with the relative error alone: below \<open>2^-1022\<close> it is a binary64 number.
\<close>

lemma nearest_half_quantum: "\<bar>nearest x - x\<bar> \<le> 2 powi quantum x / 2"
proof -
  let ?u = "(2::rat) powi quantum x"
  have u: "0 < ?u" by (simp add: zero_less_power_int)
  have "nearest x - x = (of_int (rne (x / ?u)) - x / ?u) * ?u"
    using u by (simp add: nearest_def algebra_simps)
  then have "\<bar>nearest x - x\<bar> = \<bar>of_int (rne (x / ?u)) - x / ?u\<bar> * ?u"
    using u by (simp add: abs_mult)
  also have "\<dots> \<le> 1 / 2 * ?u"
    using rne_close [of "x / ?u"] u by (intro mult_right_mono) simp_all
  finally show ?thesis by simp
qed

lemma quantum_cases:
  assumes "x \<noteq> 0"
  shows "2 powi quantum x / 2 \<le> \<bar>x\<bar> / 2 ^ 53 \<or> quantum x = - 1074"
proof (cases "- 1074 \<le> ilog2 \<bar>x\<bar> - 52")
  case True
  then have q: "quantum x = ilog2 \<bar>x\<bar> - 52" by (simp add: quantum_def)
  from assms have "2 powi ilog2 \<bar>x\<bar> \<le> \<bar>x\<bar>" by (intro ilog2_bounds) simp
  moreover have "(2::rat) powi (ilog2 \<bar>x\<bar> - 52) = 2 powi ilog2 \<bar>x\<bar> / 2 ^ 52"
    by (simp add: power_int_diff)
  ultimately show ?thesis by (simp add: q)
next
  case False
  then show ?thesis by (simp add: quantum_def)
qed

lemma nearest_error: "\<bar>nearest x - x\<bar> \<le> \<bar>x\<bar> / 2 ^ 53 + 1 / 2 ^ 1075"
proof (cases "x = 0")
  case True
  then show ?thesis by (simp add: nearest_def rne_def)
next
  case False
  from quantum_cases [OF False] show ?thesis
  proof
    assume "2 powi quantum x / 2 \<le> \<bar>x\<bar> / 2 ^ 53"
    with nearest_half_quantum [of x] show ?thesis by simp
  next
    assume "quantum x = - 1074"
    then have "(2::rat) powi quantum x / 2 = 1 / 2 ^ 1075"
      by (simp add: power_int_minus_divide)
    with nearest_half_quantum [of x] have "\<bar>nearest x - x\<bar> \<le> 1 / 2 ^ 1075" by simp
    moreover have "0 \<le> \<bar>x\<bar> / 2 ^ 53" by simp
    ultimately show ?thesis by linarith
  qed
qed

lemma nearest_error_grid:
  assumes "on_grid x"
  shows "\<bar>nearest x - x\<bar> \<le> \<bar>x\<bar> / 2 ^ 53"
proof (cases "x = 0")
  case True
  then show ?thesis by (simp add: nearest_def rne_def)
next
  case False
  from quantum_cases [OF False] show ?thesis
  proof
    assume "2 powi quantum x / 2 \<le> \<bar>x\<bar> / 2 ^ 53"
    with nearest_half_quantum [of x] show ?thesis by simp
  next
    assume q: "quantum x = - 1074"
    define g where "g = (2::rat) powi (- 1074)"
    have g0: "g \<noteq> 0" by (simp add: g_def)
    from assms obtain m :: int where m: "x = of_int m * g"
      by (auto simp: on_grid_def g_def)
    have qg: "2 powi quantum x = g" by (simp only: q g_def)
    have z: "x / g = of_int m" using m g0 by simp
    have "nearest x = of_int m * g"
      by (simp only: nearest_def qg z rne_of_int)
    then have "nearest x = x"
      by (simp only: m)
    then show ?thesis by simp
  qed
qed

text \<open>
  Every finite binary64 number is a multiple of \<open>2^-1074\<close>, and so is the difference of
  two of them.
\<close>

lemma nearest_on_grid: "on_grid (nearest x)"
proof -
  have "- 1074 \<le> quantum x" by (simp add: quantum_def)
  then have "(2::rat) powi quantum x = of_int (2 ^ nat (quantum x + 1074)) * 2 powi (- 1074)"
  proof -
    assume a: "- 1074 \<le> quantum x"
    have "(2::rat) powi quantum x = 2 powi ((quantum x + 1074) + (- 1074))" by simp
    also have "\<dots> = 2 powi (quantum x + 1074) * 2 powi (- 1074)"
      by (rule power_int_add) simp
    also have "(2::rat) powi (quantum x + 1074) = of_int (2 ^ nat (quantum x + 1074))"
      using a by (simp add: power_int_def)
    finally show ?thesis .
  qed
  then have "nearest x = of_int (rne (x / 2 powi quantum x) * 2 ^ nat (quantum x + 1074)) * 2 powi (- 1074)"
    by (simp add: nearest_def)
  then show ?thesis unfolding on_grid_def by blast
qed

lemma on_grid_diff: "on_grid a \<Longrightarrow> on_grid b \<Longrightarrow> on_grid (a - b)"
proof -
  assume "on_grid a" "on_grid b"
  then obtain m n :: int where "a = of_int m * 2 powi (- 1074)" "b = of_int n * 2 powi (- 1074)"
    by (auto simp: on_grid_def)
  then have "a - b = of_int (m - n) * 2 powi (- 1074)"
    by (simp add: algebra_simps)
  then show ?thesis unfolding on_grid_def by blast
qed

lemma on_grid_0: "on_grid 0"
  unfolding on_grid_def by (rule exI [of _ 0]) simp

lemma round_binary64_on_grid:
  assumes "round_binary64 x = Finite y"
  shows "on_grid y"
proof (cases "x = 0")
  case True
  with assms have "y = 0" by (simp add: round_binary64_def)
  then show ?thesis by (simp only: on_grid_0)
next
  case False
  with assms have "y = nearest x"
    by (simp add: round_binary64_def split: if_splits)
  then show ?thesis by (simp only: nearest_on_grid)
qed

text \<open>
  Up to \<open>10^22\<close> nothing overflows.
\<close>

lemma round_binary64_finite:
  assumes "\<bar>x\<bar> \<le> 10 ^ 22"
  shows "round_binary64 x = Finite (nearest x)"
proof (cases "x = 0")
  case True
  then show ?thesis by (simp add: round_binary64_def nearest_def rne_def)
next
  case False
  have "\<bar>nearest x\<bar> \<le> \<bar>x\<bar> + \<bar>nearest x - x\<bar>" by linarith
  also have "\<dots> \<le> \<bar>x\<bar> + (\<bar>x\<bar> / 2 ^ 53 + 1 / 2 ^ 1075)"
    using nearest_error [of x] by simp
  also have "\<dots> \<le> 10 ^ 22 + (10 ^ 22 / 2 ^ 53 + 1 / 2 ^ 1075)"
    using assms by (intro add_mono divide_right_mono) simp_all
  also have "\<dots> < 2 ^ 1024" by simp
  finally show ?thesis using False by (simp add: round_binary64_def)
qed

lemma round_bound:
  assumes "\<bar>x\<bar> \<le> M" and "M \<le> 10 ^ 22"
  shows "\<exists>y. round_binary64 x = Finite y \<and> \<bar>y - x\<bar> \<le> M / 2 ^ 53 + 1 / 2 ^ 1075"
proof -
  from assms have "\<bar>x\<bar> \<le> 10 ^ 22" by linarith
  then have f: "round_binary64 x = Finite (nearest x)" by (rule round_binary64_finite)
  have "\<bar>nearest x - x\<bar> \<le> \<bar>x\<bar> / 2 ^ 53 + 1 / 2 ^ 1075" by (rule nearest_error)
  also have "\<dots> \<le> M / 2 ^ 53 + 1 / 2 ^ 1075"
    using assms(1) by (intro add_mono divide_right_mono) simp_all
  finally show ?thesis using f by blast
qed

lemma round_bound_grid:
  assumes "on_grid x" and "\<bar>x\<bar> \<le> 10 ^ 22"
  shows "\<exists>y. round_binary64 x = Finite y \<and> \<bar>y - x\<bar> \<le> \<bar>x\<bar> / 2 ^ 53"
  using round_binary64_finite [OF assms(2)] nearest_error_grid [OF assms(1)] by blast

text \<open>
  A rounding is computed from the binary exponent of its argument.
\<close>

lemma round_binary64_eval:
  assumes "2 powi k \<le> \<bar>x\<bar>" and "\<bar>x\<bar> < 2 powi (k + 1)"
    and "q = max (k - 52) (- 1074)"
    and "y = of_int (rne (x / 2 powi q)) * 2 powi q"
    and "\<bar>y\<bar> < 2 ^ 1024"
  shows "round_binary64 x = Finite y"
proof -
  have "(0::rat) < 2 powi k" by simp
  with assms(1) have "x \<noteq> 0" by linarith
  moreover have "nearest x = y"
    unfolding nearest_def quantum_def ilog2_unique [OF assms(1,2)] assms(3) [symmetric] assms(4) ..
  ultimately show ?thesis using assms(5) by (simp add: round_binary64_def)
qed

section \<open>The arithmetic of the proxy\<close>

text \<open>
  The decimal \<^verbatim>\<open>toFixed\<close> prints is within half a unit of its last digit of the number,
  and it has at most \<open>f\<close> digits after the point.
\<close>

lemma toFixed_close: "\<bar>toFixed x f - x\<bar> \<le> 1 / (2 * 10 ^ f)"
proof -
  define n where "n = \<lfloor>\<bar>x\<bar> * 10 ^ f + 1 / 2\<rfloor>"
  have p: "(0::rat) < 10 ^ f" by simp
  have "of_int n \<le> \<bar>x\<bar> * 10 ^ f + 1 / 2" and "\<bar>x\<bar> * 10 ^ f + 1 / 2 < of_int n + 1"
    unfolding n_def by linarith+
  then have "\<bar>of_int n - \<bar>x\<bar> * 10 ^ f\<bar> \<le> 1 / 2"
    by linarith
  then have "\<bar>of_int n - \<bar>x\<bar> * 10 ^ f\<bar> / 10 ^ f \<le> (1 / 2) / 10 ^ f"
    by (rule divide_right_mono) simp
  moreover have "\<bar>of_int n - \<bar>x\<bar> * 10 ^ f\<bar> / 10 ^ f = \<bar>of_int n / 10 ^ f - \<bar>x\<bar>\<bar>"
  proof -
    have "of_int n / 10 ^ f - \<bar>x\<bar> = (of_int n - \<bar>x\<bar> * 10 ^ f) / 10 ^ f"
      using p by (simp add: field_simps)
    then show ?thesis by (simp add: abs_divide)
  qed
  ultimately have m: "\<bar>of_int n / 10 ^ f - \<bar>x\<bar>\<bar> \<le> 1 / (2 * 10 ^ f)"
    by simp
  have "toFixed x f - x = sgn x * (of_int n / 10 ^ f - \<bar>x\<bar>)"
    by (simp add: toFixed_def n_def right_diff_distrib sgn_mult_abs)
  then have "\<bar>toFixed x f - x\<bar> = \<bar>sgn x\<bar> * \<bar>of_int n / 10 ^ f - \<bar>x\<bar>\<bar>"
    by (simp add: abs_mult)
  also have "\<dots> \<le> \<bar>of_int n / 10 ^ f - \<bar>x\<bar>\<bar>"
    by (cases "x = 0") (simp_all add: abs_sgn_eq)
  finally show ?thesis using m by linarith
qed

lemma toFixed_decimals: "\<exists>n::int. toFixed x f = of_int n / 10 ^ f"
proof -
  define m where "m = \<lfloor>\<bar>x\<bar> * 10 ^ f + 1 / 2\<rfloor>"
  have "sgn x * (of_int m / 10 ^ f) = of_int (if x < 0 then - m else if x = 0 then 0 else m) / 10 ^ f"
    by (simp add: sgn_if)
  then show ?thesis
    unfolding toFixed_def m_def [symmetric] by blast
qed

text \<open>
  \<^verbatim>\<open>parseFloat(x.toFixed(2))\<close> of a number of magnitude up to \<open>10^12 + 1\<close> is the binary64
  number nearest to a decimal of two places, within \<open>0.005\<close> and the error of one
  rounding of \<open>x\<close>.
\<close>

lemma parse_toFixed_bound:
  assumes "\<bar>x\<bar> \<le> 10 ^ 12 + 1"
  shows "\<exists>c n. parseFloat_toFixed (Finite x) 2 = Finite c
           \<and> round_binary64 (of_int n / 100) = Finite c
           \<and> \<bar>c - x\<bar> \<le> 1 / 200 + (10 ^ 12 + 2) / 2 ^ 53 + 1 / 2 ^ 1075"
proof -
  have "(10::rat) ^ 12 + 1 < 10 ^ 21" by simp
  with assms have small: "\<not> 10 ^ 21 \<le> \<bar>x\<bar>" by linarith
  have t: "\<bar>toFixed x 2 - x\<bar> \<le> 1 / 200"
    using toFixed_close [of x 2] by simp
  with assms have "\<bar>toFixed x 2\<bar> \<le> 10 ^ 12 + 2" by linarith
  moreover have "(10::rat) ^ 12 + 2 \<le> 10 ^ 22" by simp
  ultimately have "\<exists>y. round_binary64 (toFixed x 2) = Finite y
      \<and> \<bar>y - toFixed x 2\<bar> \<le> (10 ^ 12 + 2) / 2 ^ 53 + 1 / 2 ^ 1075"
    by (rule round_bound)
  then obtain c where
    c: "round_binary64 (toFixed x 2) = Finite c"
      "\<bar>c - toFixed x 2\<bar> \<le> (10 ^ 12 + 2) / 2 ^ 53 + 1 / 2 ^ 1075"
    by auto
  from toFixed_decimals [of x 2] obtain n :: int where n: "toFixed x 2 = of_int n / 100"
    by auto
  have "\<bar>c - x\<bar> \<le> \<bar>c - toFixed x 2\<bar> + \<bar>toFixed x 2 - x\<bar>" by linarith
  with c(2) t have "\<bar>c - x\<bar> \<le> 1 / 200 + (10 ^ 12 + 2) / 2 ^ 53 + 1 / 2 ^ 1075" by linarith
  moreover from small c(1) have "parseFloat_toFixed (Finite x) 2 = Finite c" by simp
  moreover from c(1) n have "round_binary64 (of_int n / 100) = Finite c" by simp
  ultimately show ?thesis by blast
qed

text \<open>
  The two lines of the handler, on binary64 numbers \<open>l\<close> and \<open>pc\<close>. The difference is
  rounded once before \<^verbatim>\<open>toFixed\<close>; the percentage is rounded three times, after the
  subtraction, the division and the multiplication. Up to a magnitude of \<open>10^12\<close> the
  roundings add less than \<open>0.005\<close> to the \<open>0.005\<close> of \<^verbatim>\<open>toFixed(2)\<close>.
\<close>

lemma binary64_change:
  assumes "\<bar>l - pc\<bar> \<le> 10 ^ 12"
  shows "\<exists>c n. parseFloat_toFixed (fsub (Finite l) (Finite pc)) 2 = Finite c
           \<and> round_binary64 (of_int n / 100) = Finite c
           \<and> \<bar>c - (l - pc)\<bar> \<le> 1 / 100"
proof -
  from round_bound [OF assms] obtain cf where
    cf: "round_binary64 (l - pc) = Finite cf" "\<bar>cf - (l - pc)\<bar> \<le> 10 ^ 12 / 2 ^ 53 + 1 / 2 ^ 1075"
    by auto
  have "10 ^ 12 / 2 ^ 53 + 1 / 2 ^ 1075 \<le> (1::rat)" by simp
  with assms cf(2) have "\<bar>cf\<bar> \<le> 10 ^ 12 + 1" by linarith
  from parse_toFixed_bound [OF this] obtain c n where
    c: "parseFloat_toFixed (Finite cf) 2 = Finite c" "round_binary64 (of_int n / 100) = Finite c"
      "\<bar>c - cf\<bar> \<le> 1 / 200 + (10 ^ 12 + 2) / 2 ^ 53 + 1 / 2 ^ 1075"
    by blast
  have "\<bar>c - (l - pc)\<bar> \<le> \<bar>c - cf\<bar> + \<bar>cf - (l - pc)\<bar>" by linarith
  moreover have "(10 ^ 12 + 2) / 2 ^ 53 + 1 / 2 ^ 1075 \<le> (1 / 1000 :: rat)" by simp
  moreover have "10 ^ 12 / 2 ^ 53 + 1 / 2 ^ 1075 \<le> (1 / 1000 :: rat)" by simp
  ultimately have "\<bar>c - (l - pc)\<bar> \<le> 1 / 100" using c(3) cf(2) by linarith
  with c(1,2) cf(1) show ?thesis by auto
qed

lemma binary64_percent:
  assumes l: "on_grid l" and pc: "on_grid pc" and nz: "pc \<noteq> 0"
    and d: "\<bar>l - pc\<bar> \<le> 10 ^ 12" and q: "\<bar>100 * (l - pc) / pc\<bar> \<le> 10 ^ 12"
  shows "\<exists>p n. parseFloat_toFixed
                  (fmul (fdiv (fsub (Finite l) (Finite pc)) (Finite pc)) (Finite 100)) 2 = Finite p
           \<and> round_binary64 (of_int n / 100) = Finite p
           \<and> \<bar>p - 100 * (l - pc) / pc\<bar> \<le> 1 / 100"
proof -
  define r where "r = (l - pc) / pc"
  have qr: "100 * (l - pc) / pc = 100 * r" by (simp add: r_def)
  have r100: "\<bar>100 * r\<bar> = 100 * \<bar>r\<bar>" by (simp add: abs_mult)
  have r: "\<bar>r\<bar> \<le> 10 ^ 10"
    using q unfolding qr r100 by simp
  have "on_grid (l - pc)" using l pc by (rule on_grid_diff)
  moreover from d have "\<bar>l - pc\<bar> \<le> 10 ^ 22" by simp
  ultimately obtain cf where
    cf: "round_binary64 (l - pc) = Finite cf" "\<bar>cf - (l - pc)\<bar> \<le> \<bar>l - pc\<bar> / 2 ^ 53"
    using round_bound_grid by blast
  have x1: "\<bar>cf / pc - r\<bar> \<le> 10 ^ 10 / 2 ^ 53"
  proof -
    have "cf / pc - r = (cf - (l - pc)) / pc"
      by (simp add: r_def diff_divide_distrib)
    then have "\<bar>cf / pc - r\<bar> = \<bar>cf - (l - pc)\<bar> / \<bar>pc\<bar>"
      by (simp add: abs_divide)
    also have "\<dots> \<le> (\<bar>l - pc\<bar> / 2 ^ 53) / \<bar>pc\<bar>"
      using cf(2) by (rule divide_right_mono) simp
    also have "\<dots> = \<bar>r\<bar> / 2 ^ 53"
      by (simp add: r_def abs_divide)
    also have "\<dots> \<le> 10 ^ 10 / 2 ^ 53"
      using r by (rule divide_right_mono) simp
    finally show ?thesis .
  qed
  have "10 ^ 10 / 2 ^ 53 \<le> (1::rat)" by simp
  with r x1 have "\<bar>cf / pc\<bar> \<le> 10 ^ 10 + 1" by linarith
  from round_bound [OF this] obtain q1 where
    q1: "round_binary64 (cf / pc) = Finite q1"
      "\<bar>q1 - cf / pc\<bar> \<le> (10 ^ 10 + 1) / 2 ^ 53 + 1 / 2 ^ 1075"
    by auto
  define e where "e = (10 ^ 10 + 1) / 2 ^ 53 + 1 / 2 ^ 1075 + 10 ^ 10 / (2 ^ 53 :: rat)"
  have e2: "\<bar>q1 * 100 - 100 * r\<bar> \<le> 100 * e"
  proof -
    have "\<bar>q1 - r\<bar> \<le> \<bar>q1 - cf / pc\<bar> + \<bar>cf / pc - r\<bar>" by linarith
    with q1(2) x1 have "\<bar>q1 - r\<bar> \<le> e"
      unfolding e_def by linarith
    moreover have "\<bar>q1 * 100 - 100 * r\<bar> = 100 * \<bar>q1 - r\<bar>"
      by (simp add: abs_if)
    ultimately show ?thesis by linarith
  qed
  from q have "\<bar>100 * r\<bar> \<le> 10 ^ 12" by (simp only: qr)
  have n2: "100 * e \<le> 1 / 2000"
    by (simp add: e_def)
  with e2 \<open>\<bar>100 * r\<bar> \<le> 10 ^ 12\<close> have "\<bar>q1 * 100\<bar> \<le> 10 ^ 12 + 1" by linarith
  from round_bound [OF this] obtain q2 where
    q2: "round_binary64 (q1 * 100) = Finite q2"
      "\<bar>q2 - q1 * 100\<bar> \<le> (10 ^ 12 + 1) / 2 ^ 53 + 1 / 2 ^ 1075"
    by auto
  have e3: "\<bar>q2 - 100 * r\<bar> \<le> 1 / 1000"
  proof -
    have "\<bar>q2 - 100 * r\<bar> \<le> \<bar>q2 - q1 * 100\<bar> + \<bar>q1 * 100 - 100 * r\<bar>" by linarith
    moreover have "(10 ^ 12 + 1) / 2 ^ 53 + 1 / 2 ^ 1075 \<le> (1 / 2000 :: rat)" by simp
    ultimately show ?thesis using q2(2) e2 n2 by linarith
  qed
  with \<open>\<bar>100 * r\<bar> \<le> 10 ^ 12\<close> have "\<bar>q2\<bar> \<le> 10 ^ 12 + 1" by linarith
  from parse_toFixed_bound [OF this] obtain p n where
    p: "parseFloat_toFixed (Finite q2) 2 = Finite p" "round_binary64 (of_int n / 100) = Finite p"
      "\<bar>p - q2\<bar> \<le> 1 / 200 + (10 ^ 12 + 2) / 2 ^ 53 + 1 / 2 ^ 1075"
    by blast
  have "\<bar>p - 100 * r\<bar> \<le> \<bar>p - q2\<bar> + \<bar>q2 - 100 * r\<bar>" by linarith
  moreover have "(10 ^ 12 + 2) / 2 ^ 53 + 1 / 2 ^ 1075 \<le> (1 / 1000 :: rat)" by simp
  ultimately have "\<bar>p - 100 * r\<bar> \<le> 1 / 100" using p(3) e3 by linarith
  moreover have "100 * r = 100 * (l - pc) / pc" by (simp add: r_def)
  moreover have "fmul (fdiv (fsub (Finite l) (Finite pc)) (Finite pc)) (Finite 100) = Finite q2"
    using cf(1) q1(1) q2(1) nz by simp
  ultimately show ?thesis using p(1,2) by auto
qed

lemma get_responseData:
  "get (responseData symbol sd) ''ltp'' = Some (json_of_number (round_binary64 (ltp sd)))"
  "get (responseData symbol sd) ''previousClose'' =
     Some (json_of_number (round_binary64 (prev_close_price sd)))"
  "get (responseData symbol sd) ''change'' =
     Some (json_of_number
       (parseFloat_toFixed
          (fsub (round_binary64 (ltp sd)) (round_binary64 (prev_close_price sd))) 2))"
  "get (responseData symbol sd) ''changePercent'' =
     Some (json_of_number
       (parseFloat_toFixed
          (fmul (fdiv (fsub (round_binary64 (ltp sd)) (round_binary64 (prev_close_price sd)))
                   (round_binary64 (prev_close_price sd)))
             (Finite 100)) 2))"
  by (simp_all add: responseData_def Let_def)

lemma json_of_number_JNum: "json_of_number x = JNum y \<longleftrightarrow> x = Finite y"
  by (cases x) simp_all

text \<open>
  On a request that is not a preflight the handler answers with status 200 only from its
  last branch, with the quote as the body.
\<close>

lemma proxy_handler_200:
  assumes "req_method req \<noteq> ''OPTIONS''" and "status (proxy_handler req accessToken upstream) = 200"
  shows "\<exists>symbol sd. req_json req = Json (Some symbol)
           \<and> body (proxy_handler req accessToken upstream) = Some (responseData symbol sd)"
  using assms
  by (auto simp: proxy_handler_def json_response_def failed_response_def
      split: request_json.splits option.splits if_splits upstream_result.splits sum.splits)

text \<open>
  Claim C4, as amended. For every successful quote computed by the proxy whose returned
  \<open>ltp\<close> and \<open>previousClose\<close> (\<open>l\<close> and \<open>pc\<close>) differ by at most \<open>10^12\<close>, the returned
  \<open>change\<close> is \<^verbatim>\<open>parseFloat((l - pc).toFixed(2))\<close> in binary64 arithmetic, which is the
  binary64 number nearest to a decimal of two places and is within 0.01 of \<open>l - pc\<close>; and
  if moreover \<open>pc \<noteq> 0\<close> and \<open>100 * (l - pc) / pc\<close> is at most \<open>10^12\<close> in magnitude, the
  returned \<open>changePercent\<close> is \<^verbatim>\<open>parseFloat((((l - pc) / pc) * 100).toFixed(2))\<close> in
  binary64 arithmetic, which is the binary64 number nearest to a decimal of two places
  and is within 0.01 of \<open>100 * (l - pc) / pc\<close>. \<open>change\<close> in the percentage is the
  difference before \<^verbatim>\<open>toFixed\<close>, as in the code. The differences and quotients in the
  bounds are the exact ones.
\<close>

theorem proxy_change_within_tolerance:
  assumes "req_method req \<noteq> ''OPTIONS''"
    and "status (proxy_handler req accessToken upstream) = 200"
  shows "\<exists>q. body (proxy_handler req accessToken upstream) = Some q
         \<and> (\<forall>l pc. get q ''ltp'' = Some (JNum l) \<and> get q ''previousClose'' = Some (JNum pc)
                  \<and> \<bar>l - pc\<bar> \<le> 10 ^ 12 \<longrightarrow>
               (\<exists>c n. get q ''change'' = Some (JNum c)
                    \<and> parseFloat_toFixed (fsub (Finite l) (Finite pc)) 2 = Finite c
                    \<and> round_binary64 (of_int n / 100) = Finite c
                    \<and> \<bar>c - (l - pc)\<bar> \<le> 1 / 100)
             \<and> (pc \<noteq> 0 \<and> \<bar>100 * (l - pc) / pc\<bar> \<le> 10 ^ 12 \<longrightarrow>
                  (\<exists>p n. get q ''changePercent'' = Some (JNum p)
                       \<and> parseFloat_toFixed
                           (fmul (fdiv (fsub (Finite l) (Finite pc)) (Finite pc)) (Finite 100)) 2
                         = Finite p
                       \<and> round_binary64 (of_int n / 100) = Finite p
                       \<and> \<bar>p - 100 * (l - pc) / pc\<bar> \<le> 1 / 100)))"
proof -
  from proxy_handler_200 [OF assms] obtain symbol sd
    where b: "body (proxy_handler req accessToken upstream) = Some (responseData symbol sd)"
    by blast
  let ?q = "responseData symbol sd"
  have "(\<exists>c n. get ?q ''change'' = Some (JNum c)
            \<and> parseFloat_toFixed (fsub (Finite l) (Finite pc)) 2 = Finite c
            \<and> round_binary64 (of_int n / 100) = Finite c
            \<and> \<bar>c - (l - pc)\<bar> \<le> 1 / 100)
      \<and> (pc \<noteq> 0 \<and> \<bar>100 * (l - pc) / pc\<bar> \<le> 10 ^ 12 \<longrightarrow>
            (\<exists>p n. get ?q ''changePercent'' = Some (JNum p)
                 \<and> parseFloat_toFixed
                     (fmul (fdiv (fsub (Finite l) (Finite pc)) (Finite pc)) (Finite 100)) 2
                   = Finite p
                 \<and> round_binary64 (of_int n / 100) = Finite p
                 \<and> \<bar>p - 100 * (l - pc) / pc\<bar> \<le> 1 / 100))"
    if l: "get ?q ''ltp'' = Some (JNum l)" and pc: "get ?q ''previousClose'' = Some (JNum pc)"
      and d: "\<bar>l - pc\<bar> \<le> 10 ^ 12" for l pc
  proof -
    from l have rl: "round_binary64 (ltp sd) = Finite l"
      by (simp add: get_responseData json_of_number_JNum)
    from pc have rpc: "round_binary64 (prev_close_price sd) = Finite pc"
      by (simp add: get_responseData json_of_number_JNum)
    have gl: "on_grid l" using rl by (rule round_binary64_on_grid)
    have gpc: "on_grid pc" using rpc by (rule round_binary64_on_grid)
    have gc: "get ?q ''change'' =
        Some (json_of_number (parseFloat_toFixed (fsub (Finite l) (Finite pc)) 2))"
      by (simp only: get_responseData rl rpc)
    have gp: "get ?q ''changePercent'' =
        Some (json_of_number (parseFloat_toFixed
          (fmul (fdiv (fsub (Finite l) (Finite pc)) (Finite pc)) (Finite 100)) 2))"
      by (simp only: get_responseData rl rpc)
    from binary64_change [OF d] obtain c n where
      c: "parseFloat_toFixed (fsub (Finite l) (Finite pc)) 2 = Finite c"
        "round_binary64 (of_int n / 100) = Finite c" "\<bar>c - (l - pc)\<bar> \<le> 1 / 100"
      by blast
    from gc c(1) have "get ?q ''change'' = Some (JNum c)"
      by simp
    with c have first: "\<exists>c n. get ?q ''change'' = Some (JNum c)
            \<and> parseFloat_toFixed (fsub (Finite l) (Finite pc)) 2 = Finite c
            \<and> round_binary64 (of_int n / 100) = Finite c
            \<and> \<bar>c - (l - pc)\<bar> \<le> 1 / 100"
      by blast
    have second: "\<exists>p n. get ?q ''changePercent'' = Some (JNum p)
                 \<and> parseFloat_toFixed
                     (fmul (fdiv (fsub (Finite l) (Finite pc)) (Finite pc)) (Finite 100)) 2
                   = Finite p
                 \<and> round_binary64 (of_int n / 100) = Finite p
                 \<and> \<bar>p - 100 * (l - pc) / pc\<bar> \<le> 1 / 100"
      if nz: "pc \<noteq> 0" and q: "\<bar>100 * (l - pc) / pc\<bar> \<le> 10 ^ 12"
    proof -
      from binary64_percent [OF gl gpc nz d q] obtain p n where
        p: "parseFloat_toFixed
              (fmul (fdiv (fsub (Finite l) (Finite pc)) (Finite pc)) (Finite 100)) 2 = Finite p"
          "round_binary64 (of_int n / 100) = Finite p" "\<bar>p - 100 * (l - pc) / pc\<bar> \<le> 1 / 100"
        by blast
      from gp p(1) have "get ?q ''changePercent'' = Some (JNum p)"
        by simp
      with p show ?thesis by blast
    qed
    from first second show ?thesis by blast
  qed
  with b show ?thesis by blast
qed

text \<open>
  The theorem at the quote of the specification's scenario: \<open>ltp = 2500\<close> and
  \<open>previousClose = 2450\<close> give \<open>change = 50\<close> and, as \<open>changePercent\<close>, the binary64
  number nearest to \<open>2.04\<close>. The roundings on the way: \<open>50 / 2450\<close>, its product with
  \<open>100\<close>, and the decimal \<open>2.04\<close> that \<^verbatim>\<open>toFixed\<close> prints.
\<close>

lemma floor_rat_numeral: "\<lfloor>numeral a / numeral b :: rat\<rfloor> = numeral a div numeral b"
  by (metis floor_divide_of_int_eq of_int_numeral)

lemma binary64_2500: "round_binary64 2500 = Finite 2500"
  by (rule round_binary64_eval [where k = 11 and q = "- 41"])
    (simp_all add: rne_def floor_rat_numeral)

lemma binary64_2450: "round_binary64 2450 = Finite 2450"
  by (rule round_binary64_eval [where k = 11 and q = "- 41"])
    (simp_all add: rne_def floor_rat_numeral)

lemma binary64_2460: "round_binary64 2460 = Finite 2460"
  by (rule round_binary64_eval [where k = 11 and q = "- 41"])
    (simp_all add: rne_def floor_rat_numeral)

lemma binary64_2510: "round_binary64 2510 = Finite 2510"
  by (rule round_binary64_eval [where k = 11 and q = "- 41"])
    (simp_all add: rne_def floor_rat_numeral)

lemma binary64_2440: "round_binary64 2440 = Finite 2440"
  by (rule round_binary64_eval [where k = 11 and q = "- 41"])
    (simp_all add: rne_def floor_rat_numeral)

lemma binary64_1000000: "round_binary64 1000000 = Finite 1000000"
  by (rule round_binary64_eval [where k = 19 and q = "- 33"])
    (simp_all add: rne_def floor_rat_numeral)

lemma binary64_50: "round_binary64 50 = Finite 50"
  by (rule round_binary64_eval [where k = 5 and q = "- 47"])
    (simp_all add: rne_def floor_rat_numeral)

lemma binary64_1_over_49: "round_binary64 (1 / 49) = Finite (5882252574524729 / 288230376151711744)"
  by (rule round_binary64_eval [where k = "- 6" and q = "- 58"])
    (simp_all add: rne_def floor_rat_numeral)

lemma binary64_147056314363118225_over_72057594037927936: "round_binary64 (147056314363118225 / 72057594037927936) = Finite (4595509823847445 / 2251799813685248)"
  by (rule round_binary64_eval [where k = 1 and q = "- 51"])
    (simp_all add: rne_def floor_rat_numeral)

lemma binary64_51_over_25: "round_binary64 (51 / 25) = Finite (2296835809958953 / 1125899906842624)"
  by (rule round_binary64_eval [where k = 1 and q = "- 51"])
    (simp_all add: rne_def floor_rat_numeral)

theorem proxy_change_within_tolerance_witness:
  "req_method \<lparr>req_method = ''POST'', req_json = Json (Some ''RELIANCE'')\<rparr> \<noteq> ''OPTIONS''
   \<and> status (proxy_handler \<lparr>req_method = ''POST'', req_json = Json (Some ''RELIANCE'')\<rparr> (Some ''token'')
         (\<lambda>symbol. Replied 200 []
            (Inr \<lparr>up_status = ''success'',
                  up_data = Some [(''NSE_EQ|RELIANCE'',
                    \<lparr>ohlc = \<lparr>open_price = 2460, high = 2510, low = 2440, close_price = 2500\<rparr>,
                     ltp = 2500, prev_close_price = 2450, volume = 1000000\<rparr>)]\<rparr>))) = 200
   \<and> body (proxy_handler \<lparr>req_method = ''POST'', req_json = Json (Some ''RELIANCE'')\<rparr> (Some ''token'')
         (\<lambda>symbol. Replied 200 []
            (Inr \<lparr>up_status = ''success'',
                  up_data = Some [(''NSE_EQ|RELIANCE'',
                    \<lparr>ohlc = \<lparr>open_price = 2460, high = 2510, low = 2440, close_price = 2500\<rparr>,
                     ltp = 2500, prev_close_price = 2450, volume = 1000000\<rparr>)]\<rparr>)))
       = Some (JObj [(''companyName'', JStr ''RELIANCE''), (''ltp'', JNum 2500), (''open'', JNum 2460),
                     (''high'', JNum 2510), (''low'', JNum 2440), (''previousClose'', JNum 2450),
                     (''change'', JNum 50),
                     (''changePercent'', JNum (2296835809958953 / 1125899906842624)),
                     (''volume'', JNum 1000000)])
   \<and> \<bar>2500 - 2450 :: rat\<bar> \<le> 10 ^ 12
   \<and> round_binary64 (of_int 5000 / 100) = Finite 50
   \<and> \<bar>50 - (2500 - 2450) :: rat\<bar> \<le> 1 / 100
   \<and> (2450 :: rat) \<noteq> 0
   \<and> \<bar>100 * (2500 - 2450) / 2450 :: rat\<bar> \<le> 10 ^ 12
   \<and> round_binary64 (of_int 204 / 100) = Finite (2296835809958953 / 1125899906842624)
   \<and> \<bar>2296835809958953 / 1125899906842624 - 100 * (2500 - 2450) / 2450 :: rat\<bar> \<le> 1 / 100"
  using proxy_change_within_tolerance [of "\<lparr>req_method = ''POST'', req_json = Json (Some ''RELIANCE'')\<rparr>" "Some ''token''"
      "(\<lambda>symbol. Replied 200 []
            (Inr \<lparr>up_status = ''success'',
                  up_data = Some [(''NSE_EQ|RELIANCE'',
                    \<lparr>ohlc = \<lparr>open_price = 2460, high = 2510, low = 2440, close_price = 2500\<rparr>,
                     ltp = 2500, prev_close_price = 2450, volume = 1000000\<rparr>)]\<rparr>))"]
  by (simp add: proxy_handler_def json_response_def responseData_def toFixed_def floor_rat_numeral
      binary64_2500 binary64_2450 binary64_2460 binary64_2510 binary64_2440 binary64_1000000 binary64_50 binary64_1_over_49 binary64_147056314363118225_over_72057594037927936 binary64_51_over_25)

text \<open>
  The roundings are visible in a quote. For \<open>ltp = 829\<close> and \<open>previousClose = 800\<close> the
  percentage is \<open>3.625\<close>, which would print as \<open>3.63\<close>. In binary64 \<open>29 / 800\<close> is rounded
  down, its product with \<open>100\<close> is \<open>3.6249999999999996\<close>, \<^verbatim>\<open>toFixed(2)\<close> prints \<open>3.62\<close>, and
  the returned \<open>changePercent\<close> is the binary64 number nearest to \<open>3.62\<close>: within 0.01 of
  the percentage, but not its rounding to two places.
\<close>

lemma binary64_829: "round_binary64 829 = Finite 829"
  by (rule round_binary64_eval [where k = 9 and q = "- 43"])
    (simp_all add: rne_def floor_rat_numeral)

lemma binary64_800: "round_binary64 800 = Finite 800"
  by (rule round_binary64_eval [where k = 9 and q = "- 43"])
    (simp_all add: rne_def floor_rat_numeral)

lemma binary64_29: "round_binary64 29 = Finite 29"
  by (rule round_binary64_eval [where k = 4 and q = "- 48"])
    (simp_all add: rne_def floor_rat_numeral)

lemma binary64_29_over_800: "round_binary64 (29 / 800) = Finite (5224175567749775 / 144115188075855872)"
  by (rule round_binary64_eval [where k = "- 5" and q = "- 57"])
    (simp_all add: rne_def floor_rat_numeral)

lemma binary64_130604389193744375_over_36028797018963968: "round_binary64 (130604389193744375 / 36028797018963968) = Finite (8162774324609023 / 2251799813685248)"
  by (rule round_binary64_eval [where k = 1 and q = "- 51"])
    (simp_all add: rne_def floor_rat_numeral)

lemma binary64_181_over_50: "round_binary64 (181 / 50) = Finite (4075757662770299 / 1125899906842624)"
  by (rule round_binary64_eval [where k = 1 and q = "- 51"])
    (simp_all add: rne_def floor_rat_numeral)

lemma changePercent_829_800:
  "get (responseData symbol \<lparr>ohlc = prices, ltp = 829, prev_close_price = 800, volume = v\<rparr>)
     ''changePercent'' = Some (JNum (4075757662770299 / 1125899906842624))"
  "round_binary64 (362 / 100) = Finite (4075757662770299 / 1125899906842624)"
  "toFixed (100 * (829 - 800) / 800) 2 = 363 / 100"
  by (simp_all add: get_responseData toFixed_def floor_rat_numeral
      binary64_829 binary64_800 binary64_29 binary64_29_over_800 binary64_130604389193744375_over_36028797018963968 binary64_181_over_50)

text \<open>
  Without the bound on the magnitude the claim fails. For \<open>ltp = 10^17\<close> and
  \<open>previousClose = 0.25\<close>, both binary64 numbers, the binary64 numbers around \<open>10^17\<close>
  are 16 apart: the subtraction returns \<open>10^17\<close>, and so does the proxy as \<open>change\<close>,
  0.25 away from \<open>ltp - previousClose\<close>; the returned \<open>changePercent\<close> is \<open>4 * 10^19\<close>,
  100 away from \<open>100 * (ltp - previousClose) / previousClose\<close>.
\<close>

lemma binary64_100000000000000000: "round_binary64 100000000000000000 = Finite 100000000000000000"
  by (rule round_binary64_eval [where k = 56 and q = 4])
    (simp_all add: rne_def floor_rat_numeral)

lemma binary64_1_over_4: "round_binary64 (1 / 4) = Finite (1 / 4)"
  by (rule round_binary64_eval [where k = "- 2" and q = "- 54"])
    (simp_all add: rne_def floor_rat_numeral)

lemma binary64_1000: "round_binary64 1000 = Finite 1000"
  by (rule round_binary64_eval [where k = 9 and q = "- 43"])
    (simp_all add: rne_def floor_rat_numeral)

lemma binary64_399999999999999999_over_4: "round_binary64 (399999999999999999 / 4) = Finite 100000000000000000"
  by (rule round_binary64_eval [where k = 56 and q = 4])
    (simp_all add: rne_def floor_rat_numeral)

lemma binary64_400000000000000000: "round_binary64 400000000000000000 = Finite 400000000000000000"
  by (rule round_binary64_eval [where k = 58 and q = 6])
    (simp_all add: rne_def floor_rat_numeral)

lemma binary64_40000000000000000000: "round_binary64 40000000000000000000 = Finite 40000000000000000000"
  by (rule round_binary64_eval [where k = 65 and q = 13])
    (simp_all add: rne_def floor_rat_numeral)

theorem proxy_change_large_counterexample:
  "status (proxy_handler \<lparr>req_method = ''POST'', req_json = Json (Some ''X'')\<rparr> (Some ''token'')
         (\<lambda>symbol. Replied 200 []
            (Inr \<lparr>up_status = ''success'',
                  up_data = Some [(''NSE_EQ|X'',
                    \<lparr>ohlc = \<lparr>open_price = 100000000000000000, high = 100000000000000000,
                            low = 100000000000000000, close_price = 100000000000000000\<rparr>,
                     ltp = 100000000000000000, prev_close_price = 1 / 4, volume = 1000\<rparr>)]\<rparr>))) = 200
   \<and> body (proxy_handler \<lparr>req_method = ''POST'', req_json = Json (Some ''X'')\<rparr> (Some ''token'')
         (\<lambda>symbol. Replied 200 []
            (Inr \<lparr>up_status = ''success'',
                  up_data = Some [(''NSE_EQ|X'',
                    \<lparr>ohlc = \<lparr>open_price = 100000000000000000, high = 100000000000000000,
                            low = 100000000000000000, close_price = 100000000000000000\<rparr>,
                     ltp = 100000000000000000, prev_close_price = 1 / 4, volume = 1000\<rparr>)]\<rparr>)))
       = Some (JObj [(''companyName'', JStr ''X''), (''ltp'', JNum 100000000000000000),
                     (''open'', JNum 100000000000000000), (''high'', JNum 100000000000000000),
                     (''low'', JNum 100000000000000000), (''previousClose'', JNum (1 / 4)),
                     (''change'', JNum 100000000000000000),
                     (''changePercent'', JNum 40000000000000000000),
                     (''volume'', JNum 1000)])
   \<and> 1 / 100 < \<bar>100000000000000000 - (100000000000000000 - 1 / 4) :: rat\<bar>
   \<and> 1 / 100 < \<bar>40000000000000000000 - 100 * (100000000000000000 - 1 / 4) / (1 / 4) :: rat\<bar>"
  by (simp add: proxy_handler_def json_response_def responseData_def toFixed_def floor_rat_numeral
      binary64_100000000000000000 binary64_1_over_4 binary64_1000 binary64_399999999999999999_over_4 binary64_400000000000000000 binary64_40000000000000000000)

section \<open>The entry of a failed fetch\<close>

lemma failure_entry_key:
  assumes "find_row csvData symbol = Some row"
  shows "failure_entry csvData symbol index now key =
           (case row key of
              Some v \<Rightarrow> Some (JStr v)
            | None \<Rightarrow>
                [''id'' \<mapsto> JNum (of_nat (index + 1)),
                 ''symbol'' \<mapsto> JStr symbol,
                 ''companyName'' \<mapsto> JStr symbol,
                 ''ltp'' \<mapsto> JNum 0,
                 ''open'' \<mapsto> JNum 0,
                 ''high'' \<mapsto> JNum 0,
                 ''low'' \<mapsto> JNum 0,
                 ''previousClose'' \<mapsto> JNum 0,
                 ''change'' \<mapsto> JNum 0,
                 ''changePercent'' \<mapsto> JNum 0,
                 ''volume'' \<mapsto> JNum 0,
                 ''lastUpdated'' \<mapsto> JStr now,
                 ''error'' \<mapsto> JStr ''Failed to fetch data''] key)"
  using assms
  by (simp add: failure_entry_def spread_row_def map_add_def split: option.splits)

text \<open>
  Claim C5, as amended. For every symbol whose fetch fails (a network failure, a status
  outside 200..299, a body that is not JSON or is \<^verbatim>\<open>null\<close>), each of the numeric quote
  fields of the entry is 0 and its \<open>error\<close> field is the fixed string
  "Failed to fetch data", unless the CSV row matching the symbol has a column of that
  name: the row is spread last, so the entry then carries the CSV cell, a string. The
  entry is the failure entry of the symbol, its position and the time, in which nothing
  of the response occurs.
\<close>

theorem failed_fetch_entry:
  assumes "i < length (extract_symbols csvData)"
    and "net i = NetworkError
         \<or> (\<exists>r. net i = Fetched r \<and> (\<not> ok r \<or> body r = None \<or> body r = Some JNull))"
  shows "\<exists>row. find_row csvData (extract_symbols csvData ! i) = Some row
           \<and> stocks (final_state st (handleCSVData st csvData net clock)) ! i =
               failure_entry csvData (extract_symbols csvData ! i) i (clock i)
           \<and> (\<forall>key \<in> set [''ltp'', ''open'', ''high'', ''low'', ''previousClose'', ''change'',
                             ''changePercent'', ''volume''].
                 (stocks (final_state st (handleCSVData st csvData net clock)) ! i) key =
                   (case row key of None \<Rightarrow> Some (JNum 0) | Some v \<Rightarrow> Some (JStr v)))
           \<and> (stocks (final_state st (handleCSVData st csvData net clock)) ! i) ''error'' =
                 (case row ''error'' of
                    None \<Rightarrow> Some (JStr ''Failed to fetch data'')
                  | Some v \<Rightarrow> Some (JStr v))"
proof -
  let ?symbol = "extract_symbols csvData ! i"
  from assms(1) have "?symbol \<in> set (extract_symbols csvData)" by simp
  then obtain row where row: "find_row csvData ?symbol = Some row"
    using extract_symbols_matched by blast
  from assms(2) consider "net i = NetworkError"
    | r where "net i = Fetched r" "\<not> ok r"
    | r where "net i = Fetched r" "ok r" "body r = None"
    | r where "net i = Fetched r" "ok r" "body r = Some JNull"
    by blast
  then have "\<exists>e. load_try csvData ?symbol i (net i) (clock i) = Inl e"
    by cases (simp_all add: load_try_failures)
  then obtain e where "load_try csvData ?symbol i (net i) (clock i) = Inl e" ..
  then have entry: "stocks (final_state st (handleCSVData st csvData net clock)) ! i =
      failure_entry csvData ?symbol i (clock i)"
    using assms(1) by (simp add: handleCSVData_nth)
  show ?thesis
    unfolding entry using row
    by (simp add: failure_entry_key split: option.splits)
qed

text \<open>
  The theorem at a CSV row with the columns \<open>symbol\<close> and \<open>quantity\<close> and a request that
  fails on the network.
\<close>

theorem failed_fetch_entry_witness:
  "0 < length (extract_symbols [[''symbol'' \<mapsto> ''tcs'', ''quantity'' \<mapsto> ''50'']])
   \<and> (stocks (final_state \<lparr>stocks = [], loading = False\<rparr>
         (handleCSVData \<lparr>stocks = [], loading = False\<rparr>
            [[''symbol'' \<mapsto> ''tcs'', ''quantity'' \<mapsto> ''50'']] (\<lambda>i. NetworkError) (\<lambda>i. ''t''))) ! 0) ''volume''
       = Some (JNum 0)
   \<and> (stocks (final_state \<lparr>stocks = [], loading = False\<rparr>
         (handleCSVData \<lparr>stocks = [], loading = False\<rparr>
            [[''symbol'' \<mapsto> ''tcs'', ''quantity'' \<mapsto> ''50'']] (\<lambda>i. NetworkError) (\<lambda>i. ''t''))) ! 0) ''error''
       = Some (JStr ''Failed to fetch data'')"
  using failed_fetch_entry [of 0 "[[''symbol'' \<mapsto> ''tcs'', ''quantity'' \<mapsto> ''50'']]" "\<lambda>i. NetworkError"
      "\<lparr>stocks = [], loading = False\<rparr>" "\<lambda>i. ''t''"]
  by (simp add: extract_eval string_eval string_eval2 find_row_def row_matches_def
      failure_entry_def spread_row_def map_add_def)

text \<open>
  Claim C5 as stated fails: for the CSV text \<^verbatim>\<open>symbol,volume / TCS,500\<close> and a request
  that fails on the network, the \<open>volume\<close> of the entry is the string "500", not 0.
\<close>

theorem failed_fetch_zero_fields_counterexample:
  "(case upload \<lparr>stocks = [], loading = False\<rparr> (''symbol,volume'' @ [CHR 0x0A] @ ''TCS,500'')
           (\<lambda>i. NetworkError) (\<lambda>i. ''t'') of
      Inl message \<Rightarrow> None
    | Inr r \<Rightarrow> (stocks (final_state \<lparr>stocks = [], loading = False\<rparr> r) ! 0) ''volume'')
   = Some (JStr ''500'')"
  by (simp add: upload_eval string_eval string_eval2 extract_eval load_eval)

section \<open>Symbol extraction and blank cells\<close>

text \<open>
  The extracted symbols are the normalised non-empty symbol cells; extraction finds no
  symbol exactly when no row has a non-empty symbol cell; and a cell normalises to the
  empty string exactly when it consists of white space.
\<close>

lemma dropWhile_all_iff: "(\<forall>x \<in> set (dropWhile P xs). P x) \<longleftrightarrow> (\<forall>x \<in> set xs. P x)"
proof
  assume a: "\<forall>x \<in> set (dropWhile P xs). P x"
  have "dropWhile P xs = []"
  proof (rule ccontr)
    assume n: "dropWhile P xs \<noteq> []"
    then have "\<not> P (hd (dropWhile P xs))" by (rule hd_dropWhile)
    moreover from n have "hd (dropWhile P xs) \<in> set (dropWhile P xs)" by simp
    ultimately show False using a by blast
  qed
  then show "\<forall>x \<in> set xs. P x" by (simp add: dropWhile_eq_Nil_conv)
next
  assume "\<forall>x \<in> set xs. P x"
  then show "\<forall>x \<in> set (dropWhile P xs). P x" by (auto dest: set_dropWhileD)
qed

lemma normalize_symbol_empty_iff: "normalize_symbol s = [] \<longleftrightarrow> (\<forall>c \<in> set s. is_ws c)"
  by (simp add: normalize_symbol_def toUpperCase_def trim_def dropWhile_eq_Nil_conv dropWhile_all_iff)

lemma extract_symbols_empty_iff:
  "extract_symbols csvData = [] \<longleftrightarrow> (\<forall>row \<in> set csvData. \<not> truthy_string (symbol_cell row))"
  by (auto simp: extract_symbols_def filter_empty_conv)

lemma extract_symbols_set:
  "set (extract_symbols csvData) =
     {normalize_symbol s | s row. row \<in> set csvData \<and> symbol_cell row = Some s \<and> s \<noteq> []}"
proof -
  have "truthy_string v \<longleftrightarrow> (\<exists>s. v = Some s \<and> s \<noteq> [])" for v
    by (cases v) (simp_all add: truthy_string_def)
  then show ?thesis
    by (fastforce simp: extract_symbols_def image_iff)
qed

text \<open>
  Claim C6. The claim says that every extracted symbol is non-empty after normalisation,
  that a record whose symbol normalises to the empty string is left out, and that
  extraction fails exactly when no valid symbol remains. The code tests the cell for
  emptiness before it trims it. The parser strips the double quotes of a cell after
  trimming it, so the CSV text \<^verbatim>\<open>symbol,quantity / " ",5\<close> gives a cell that is one
  space: it passes the filter and is trimmed to the empty symbol. No alert is raised, a
  quote is requested for the symbol \<^verbatim>\<open>""\<close>, and the portfolio gets an entry for it.
\<close>

theorem blank_symbol_is_extracted:
  "(case upload \<lparr>stocks = [], loading = False\<rparr>
           (''symbol,quantity'' @ [CHR 0x0A] @ [CHR 0x22] @ '' '' @ [CHR 0x22] @ '',5'')
           (\<lambda>i. NetworkError) (\<lambda>i. ''t'') of
      Inl message \<Rightarrow> None
    | Inr r \<Rightarrow> Some (requests r, alerts r, map (\<lambda>entry. entry ''symbol'') (stocks (last (states r)))))
   = Some ([JObj [(''symbol'', JStr [])]], [], [Some (JStr '' '')])
   \<and> extract_symbols [[''symbol'' \<mapsto> '' '', ''quantity'' \<mapsto> ''5'']] = [[]]"
  by (simp add: upload_eval string_eval string_eval2 extract_eval load_eval)

section \<open>The parser keeps the rows of the header's width\<close>

lemma parse_rows_eq:
  "parse_rows hs ls i acc =
     acc @ map (\<lambda>l. mk_row hs (line_fields l))
              (filter (\<lambda>l. length (line_fields l) = length hs) (drop i ls))"
proof (induction hs ls i acc rule: parse_rows.induct)
  case (1 hs ls i acc)
  show ?case
  proof (cases "i < length ls")
    case True
    then have d: "drop i ls = ls ! i # drop (Suc i) ls"
      by (simp add: Cons_nth_drop_Suc)
    show ?thesis
      using 1 True by (subst parse_rows.simps) (simp add: d Let_def)
  next
    case False
    then show ?thesis by (subst parse_rows.simps) simp
  qed
qed

text \<open>
  Claim C7. For every input text with at least two lines after trimming, the parser does
  not fail, and its rows are those of the data lines whose number of comma-separated
  fields equals the header's, in the order of the lines: a data line is accepted if and
  only if the two numbers are equal, and every other line is dropped without an error.
\<close>

theorem parseCSV_accepts_matching_rows:
  assumes "2 \<le> length (text_lines text)"
  shows "parseCSV text =
           Inr (map (\<lambda>l. mk_row (line_fields (hd (text_lines text))) (line_fields l))
                  (filter (\<lambda>l. length (line_fields l) = length (line_fields (hd (text_lines text))))
                     (tl (text_lines text))))"
proof -
  from assms obtain h rest where l: "text_lines text = h # rest"
    by (cases "text_lines text") auto
  with assms show ?thesis
    by (auto simp add: parseCSV_def Let_def parse_rows_eq)
qed

text \<open>
  The theorem at a text of four data lines, of which the second has one field and the
  third has three.
\<close>

theorem parseCSV_accepts_matching_rows_witness:
  "2 \<le> length (text_lines (''symbol,quantity'' @ [CHR 0x0A] @ ''RELIANCE,100'' @ [CHR 0x0A] @ ''TCS''
        @ [CHR 0x0A] @ ''INFY,75,x'' @ [CHR 0x0A] @ ''HDFCBANK, 25''))
   \<and> (case parseCSV (''symbol,quantity'' @ [CHR 0x0A] @ ''RELIANCE,100'' @ [CHR 0x0A] @ ''TCS''
        @ [CHR 0x0A] @ ''INFY,75,x'' @ [CHR 0x0A] @ ''HDFCBANK, 25'') of
        Inl e \<Rightarrow> []
      | Inr rows \<Rightarrow> map (\<lambda>r. (r ''symbol'', r ''quantity'')) rows)
     = [(Some ''RELIANCE'', Some ''100''), (Some ''HDFCBANK'', Some ''25'')]"
  using parseCSV_accepts_matching_rows [of "''symbol,quantity'' @ [CHR 0x0A] @ ''RELIANCE,100'' @ [CHR 0x0A] @ ''TCS''
        @ [CHR 0x0A] @ ''INFY,75,x'' @ [CHR 0x0A] @ ''HDFCBANK, 25''"]
  by (simp add: string_eval)

section \<open>The session states of an upload\<close>

text \<open>
  Claim C8, as amended. A parse failure stays in the uploader: nothing is written to the
  session state and no request is sent. An extraction failure (no valid symbol) happens
  after \<^verbatim>\<open>setLoading(true)\<close>: the handler writes the state \<open>Loading\<close>, an alert is
  raised, no request is sent, and the \<^verbatim>\<open>finally\<close> block puts the session back into the
  state it started from, so an upload started in \<open>Empty\<close> goes from \<open>Loading\<close> to
  \<open>Empty\<close>. Every other upload, and every refresh of a portfolio that is not empty, goes
  from \<open>Loading\<close> to \<open>Loaded\<close>. The states are the writes of the handler in program
  order.
\<close>

theorem upload_failure_transitions:
  assumes "\<not> loading st"
  shows "(parseCSV text = Inl MalformedInput \<longrightarrow> (\<exists>message. upload st text net clock = Inl message))
       \<and> (\<forall>csvData. parseCSV text = Inr csvData \<and> extract_symbols csvData = [] \<longrightarrow>
             (\<exists>r. upload st text net clock = Inr r
                  \<and> map phase_of (states r) = [Loading, phase_of st]
                  \<and> final_state st r = st
                  \<and> requests r = []
                  \<and> alerts r = [Alert no_symbols_message]))
       \<and> (\<forall>csvData. parseCSV text = Inr csvData \<and> extract_symbols csvData \<noteq> [] \<longrightarrow>
             (\<exists>r. upload st text net clock = Inr r
                  \<and> map phase_of (states r) = [Loading, Loading, Loaded]))
       \<and> (stocks st \<noteq> [] \<longrightarrow>
             map phase_of (states (refreshStockData st net clock)) = [Loading, Loading, Loaded])"
proof (intro conjI allI impI)
  assume "parseCSV text = Inl MalformedInput"
  then show "\<exists>message. upload st text net clock = Inl message"
    by (simp add: upload_def)
next
  fix csvData
  assume a: "parseCSV text = Inr csvData \<and> extract_symbols csvData = []"
  have "st\<lparr>loading := False\<rparr> = st" using assms by simp
  with a assms show "\<exists>r. upload st text net clock = Inr r
                  \<and> map phase_of (states r) = [Loading, phase_of st]
                  \<and> final_state st r = st
                  \<and> requests r = []
                  \<and> alerts r = [Alert no_symbols_message]"
    by (simp add: upload_def handleCSVData_def Let_def final_state_def phase_of_def)
next
  fix csvData
  assume a: "parseCSV text = Inr csvData \<and> extract_symbols csvData \<noteq> []"
  then have "map_indexed f 0 (extract_symbols csvData) \<noteq> []" for f :: "string \<Rightarrow> nat \<Rightarrow> stock"
    by (cases "extract_symbols csvData") auto
  with a show "\<exists>r. upload st text net clock = Inr r
                  \<and> map phase_of (states r) = [Loading, Loading, Loaded]"
    by (simp add: upload_def handleCSVData_def Let_def load_results phase_of_def)
next
  assume a: "stocks st \<noteq> []"
  have cb: "refresh_callback (stocks st) net clock =
          (\<lambda>symbol index.
             Inr (case refresh_try (stocks st) symbol (net index) (clock index) of
                    Inr entry \<Rightarrow> entry
                  | Inl e \<Rightarrow> (case find_stock (stocks st) symbol of
                                Some s \<Rightarrow> s
                              | None \<Rightarrow> stocks st ! index)))"
    by (auto simp: refresh_callback_def fun_eq_iff split: sum.splits)
  from a have ne: "map_indexed f 0 (map (\<lambda>stock. stock ''symbol'') (stocks st)) \<noteq> []"
    for f :: "jsval option \<Rightarrow> nat \<Rightarrow> stock"
    by (cases "stocks st") auto
  from a show "map phase_of (states (refreshStockData st net clock)) = [Loading, Loading, Loaded]"
    by (simp add: refreshStockData_def Let_def phase_of_def promise_all_fulfilled ne cb)
qed

text \<open>
  The theorem at a text of one line (the parse fails), at a CSV text without a symbol
  column (the extraction fails), at a CSV text with one symbol, each uploaded in the state
  \<open>Empty\<close>, and at the refresh of a portfolio of one entry.
\<close>

theorem upload_failure_transitions_witness:
  "\<not> loading \<lparr>stocks = [], loading = False\<rparr>
   \<and> parseCSV ''symbol'' = Inl MalformedInput
   \<and> (\<exists>message. upload \<lparr>stocks = [], loading = False\<rparr> ''symbol'' (\<lambda>i. NetworkError) (\<lambda>i. ''t'')
          = Inl message)
   \<and> (case parseCSV (''name,quantity'' @ [CHR 0x0A] @ ''Infosys,5'') of
         Inl e \<Rightarrow> None
       | Inr csvData \<Rightarrow> Some (extract_symbols csvData)) = Some []
   \<and> (\<exists>r. upload \<lparr>stocks = [], loading = False\<rparr> (''name,quantity'' @ [CHR 0x0A] @ ''Infosys,5'')
              (\<lambda>i. NetworkError) (\<lambda>i. ''t'') = Inr r
          \<and> map phase_of (states r) = [Loading, Empty]
          \<and> final_state \<lparr>stocks = [], loading = False\<rparr> r = \<lparr>stocks = [], loading = False\<rparr>
          \<and> requests r = []
          \<and> alerts r = [Alert no_symbols_message])
   \<and> (case parseCSV (''symbol,quantity'' @ [CHR 0x0A] @ ''TCS,5'') of
         Inl e \<Rightarrow> None
       | Inr csvData \<Rightarrow> Some (extract_symbols csvData)) = Some [''TCS'']
   \<and> (\<exists>r. upload \<lparr>stocks = [], loading = False\<rparr> (''symbol,quantity'' @ [CHR 0x0A] @ ''TCS,5'')
              (\<lambda>i. NetworkError) (\<lambda>i. ''t'') = Inr r
          \<and> map phase_of (states r) = [Loading, Loading, Loaded])
   \<and> map phase_of (states (refreshStockData \<lparr>stocks = [[''symbol'' \<mapsto> JStr ''TCS'']], loading = False\<rparr>
                               (\<lambda>i. NetworkError) (\<lambda>i. ''t'')))
       = [Loading, Loading, Loaded]"
proof -
  let ?st = "\<lparr>stocks = [], loading = False\<rparr>"
  let ?net = "\<lambda>i::nat. NetworkError"
  let ?clock = "\<lambda>i::nat. ''t''"
  have p1: "parseCSV ''symbol'' = Inl MalformedInput"
    by (simp add: upload_eval string_eval)
  have p2: "parseCSV (''name,quantity'' @ [CHR 0x0A] @ ''Infosys,5'')
              = Inr [[''name'' \<mapsto> ''Infosys'', ''quantity'' \<mapsto> ''5'']]"
    by (simp add: upload_eval string_eval)
  have e2: "extract_symbols [[''name'' \<mapsto> ''Infosys'', ''quantity'' \<mapsto> ''5'']] = []"
    by (simp add: extract_eval)
  have p3: "parseCSV (''symbol,quantity'' @ [CHR 0x0A] @ ''TCS,5'')
              = Inr [[''symbol'' \<mapsto> ''TCS'', ''quantity'' \<mapsto> ''5'']]"
    by (simp add: upload_eval string_eval)
  have e3: "extract_symbols [[''symbol'' \<mapsto> ''TCS'', ''quantity'' \<mapsto> ''5'']] = [''TCS'']"
    by (simp add: extract_eval string_eval string_eval2)
  have l: "\<not> loading ?st" "\<not> loading \<lparr>stocks = [[''symbol'' \<mapsto> JStr ''TCS'']], loading = False\<rparr>"
    by simp_all
  note t1 = upload_failure_transitions [OF l(1), of "''symbol''" ?net ?clock]
  note t2 = upload_failure_transitions [OF l(1), of "''name,quantity'' @ [CHR 0x0A] @ ''Infosys,5''" ?net ?clock]
  note t3 = upload_failure_transitions [OF l(1), of "''symbol,quantity'' @ [CHR 0x0A] @ ''TCS,5''" ?net ?clock]
  note t4 = upload_failure_transitions [OF l(2), of "''symbol''" ?net ?clock]
  have a: "\<exists>message. upload ?st ''symbol'' ?net ?clock = Inl message"
    by (rule t1 [THEN conjunct1, rule_format, OF p1])
  have b: "\<exists>r. upload ?st (''name,quantity'' @ [CHR 0x0A] @ ''Infosys,5'') ?net ?clock = Inr r
          \<and> map phase_of (states r) = [Loading, phase_of ?st]
          \<and> final_state ?st r = ?st
          \<and> requests r = []
          \<and> alerts r = [Alert no_symbols_message]"
    by (rule t2 [THEN conjunct2, THEN conjunct1, rule_format, OF conjI [OF p2 e2]])
  have "extract_symbols [[''symbol'' \<mapsto> ''TCS'', ''quantity'' \<mapsto> ''5'']] \<noteq> []"
    by (simp add: e3)
  note ne = conjI [OF p3 this]
  have c: "\<exists>r. upload ?st (''symbol,quantity'' @ [CHR 0x0A] @ ''TCS,5'') ?net ?clock = Inr r
          \<and> map phase_of (states r) = [Loading, Loading, Loaded]"
    by (rule t3 [THEN conjunct2, THEN conjunct2, THEN conjunct1, rule_format, OF ne])
  have d: "map phase_of (states (refreshStockData
        \<lparr>stocks = [[''symbol'' \<mapsto> JStr ''TCS'']], loading = False\<rparr> ?net ?clock))
       = [Loading, Loading, Loaded]"
    by (rule t4 [THEN conjunct2, THEN conjunct2, THEN conjunct2, rule_format]) simp
  have ph: "phase_of ?st = Empty"
    by (simp add: phase_of_def)
  show ?thesis
    using a b c d unfolding p1 p2 p3 ph by (simp add: e2 e3)
qed

text \<open>
  Claim C8 as stated fails: the upload of a CSV text without a symbol column takes the
  session from \<open>Empty\<close> to \<open>Loading\<close> and from \<open>Loading\<close> to \<open>Empty\<close>.
\<close>

theorem loading_to_empty_counterexample:
  "(case upload \<lparr>stocks = [], loading = False\<rparr> (''name,quantity'' @ [CHR 0x0A] @ ''Infosys,5'')
           (\<lambda>i. NetworkError) (\<lambda>i. ''t'') of
      Inl message \<Rightarrow> []
    | Inr r \<Rightarrow> map phase_of (\<lparr>stocks = [], loading = False\<rparr> # states r))
   = [Empty, Loading, Empty]"
  by (simp add: upload_eval string_eval extract_eval load_eval phase_of_def)

section \<open>A successful refresh and the error marker\<close>

text \<open>
  When the refresh request of an entry succeeds and no earlier entry has the same symbol,
  every field of the entry but the price, volume and time fields is kept, the \<open>error\<close>
  field among them.
\<close>

lemma refresh_success_keeps_other_fields:
  assumes "i < length (stocks st)"
    and "\<forall>j<i. (stocks st ! j) ''symbol'' \<noteq> (stocks st ! i) ''symbol''"
    and "refresh_try (stocks st) ((stocks st ! i) ''symbol'') (net i) (clock i) = Inr entry"
    and "key \<notin> set [''ltp'', ''open'', ''high'', ''low'', ''previousClose'', ''change'',
                      ''changePercent'', ''volume'', ''lastUpdated'']"
  shows "(stocks (final_state st (refreshStockData st net clock)) ! i) key = (stocks st ! i) key"
proof -
  from assms(3) obtain data where
    "entry = refreshed_entry (stocks st) ((stocks st ! i) ''symbol'') data (clock i)"
    by (auto simp: refresh_try_def split: sum.splits jsval.splits)
  with assms show ?thesis
    by (simp add: refreshStockData_nth refreshed_entry_def find_stock_first spread_stock_def)
qed

text \<open>
  Claim C9. The claim says that a successful refresh of an entry whose \<open>error\<close> field is
  set leaves the field set. The refreshed entry is built from
  \<^verbatim>\<open>stocks.find(s => s.symbol === symbol)\<close>, the first entry of that symbol. In the
  portfolio loaded from \<^verbatim>\<open>symbol,quantity / INFY,100 / INFY,50\<close> with the second request
  failing, the second entry has the error marker and the first has none; after a refresh
  whose requests succeed neither entry has it.
\<close>

theorem refresh_success_duplicate_symbol_clears_error:
  "(let st0 = \<lparr>stocks = [], loading = False\<rparr>;
        quote = Fetched \<lparr>status = 200, headers = [], body = Some (JObj [(''ltp'', JNum 1500)])\<rparr>;
        st1 = (case upload st0 (''symbol,quantity'' @ [CHR 0x0A] @ ''INFY,100'' @ [CHR 0x0A] @ ''INFY,50'')
                      (\<lambda>i. if i = 0 then quote else NetworkError) (\<lambda>i. ''t1'') of
                 Inl message \<Rightarrow> st0
               | Inr r \<Rightarrow> final_state st0 r);
        st2 = final_state st1 (refreshStockData st1 (\<lambda>i. quote) (\<lambda>i. ''t2''))
    in (map (\<lambda>entry. entry ''error'') (stocks st1), map (\<lambda>entry. entry ''error'') (stocks st2)))
   = ([None, Some (JStr ''Failed to fetch data'')], [None, None])"
  by (simp add: upload_eval string_eval string_eval2 extract_eval load_eval refresh_eval)

section \<open>Refreshing an empty portfolio\<close>

text \<open>
  Claim C10. A refresh of an empty portfolio does nothing: it sends no request, raises no
  alert and writes no state, so the entries and the loading flag are as before.
\<close>

theorem refresh_empty_is_noop:
  assumes "stocks st = []"
  shows "refreshStockData st net clock = \<lparr>states = [], requests = [], alerts = []\<rparr>
         \<and> final_state st (refreshStockData st net clock) = st"
  using assms by (simp add: refreshStockData_def final_state_def)

text \<open>
  The theorem at the initial state of the application.
\<close>

theorem refresh_empty_is_noop_witness:
  "stocks \<lparr>stocks = [], loading = False\<rparr> = []
   \<and> refreshStockData \<lparr>stocks = [], loading = False\<rparr> (\<lambda>i. NetworkError) (\<lambda>i. ''t'')
       = \<lparr>states = [], requests = [], alerts = []\<rparr>
   \<and> final_state \<lparr>stocks = [], loading = False\<rparr>
         (refreshStockData \<lparr>stocks = [], loading = False\<rparr> (\<lambda>i. NetworkError) (\<lambda>i. ''t''))
       = \<lparr>stocks = [], loading = False\<rparr>"
  using refresh_empty_is_noop [of "\<lparr>stocks = [], loading = False\<rparr>" "\<lambda>i. NetworkError" "\<lambda>i. ''t''"]
  by (simp add: final_state_def)

end
